theory Spec2Isabelle
  imports Main
begin

section \<open>Progress events\<close>

text \<open>
  \<^verbatim>\<open>ProgressEvent\<close> of \<^verbatim>\<open>binderhub/build.py\<close>: a kind and a payload, the payload
  being a \<^verbatim>\<open>BuildStatus\<close> or a log line (a \<^verbatim>\<open>str\<close>).
\<close>

datatype Kind = BUILD_STATUS_CHANGE | LOG_MESSAGE

datatype BuildStatus = PENDING | RUNNING | BUILT | FAILED | UNKNOWN

datatype payload = Status BuildStatus | Line string

datatype ProgressEvent = ProgressEvent Kind payload

text \<open>The terminal status events: a status change whose payload is BUILT or FAILED.\<close>

fun terminal :: "ProgressEvent \<Rightarrow> bool" where
  "terminal (ProgressEvent BUILD_STATUS_CHANGE (Status BUILT)) = True"
| "terminal (ProgressEvent BUILD_STATUS_CHANGE (Status FAILED)) = True"
| "terminal _ = False"

section \<open>Exceptions and the Kubernetes API\<close>

text \<open>
  The exceptions that the modelled code can meet. \<open>ApiException s\<close> is
  \<^verbatim>\<open>client.rest.ApiException\<close> with HTTP status \<open>s\<close>; \<open>TransportError\<close> stands for every
  exception of the client library that is not an \<^verbatim>\<open>ApiException\<close> (connection
  failures, timeouts).
\<close>

datatype exn =
    ApiException nat
  | TransportError
  | IndexError
  | KeyError string
  | TypeError
  | ValueError
  | UnicodeDecodeError
  | RecursionError
  | OverflowError

text \<open>
  JSON values, as \<^verbatim>\<open>json.loads\<close> returns them. \<open>JObj\<close> holds the items of a dict in
  order; the keys of a dict are distinct.
\<close>

datatype json =
    JNull
  | JBool bool
  | JNum int
  | JStr string
  | JArr "json list"
  | JObj "(string \<times> json) list"

text \<open>
  A pod object as the API reports it (\<^verbatim>\<open>V1Pod\<close>): only \<^verbatim>\<open>metadata.name\<close>,
  \<^verbatim>\<open>status.phase\<close> and \<^verbatim>\<open>status.start_time\<close> are read by the code. A start time is an
  instant in microseconds since 0001-01-01T00:00:00 UTC (the resolution and the origin
  of Python's \<^verbatim>\<open>datetime\<close>); it is absent (\<^verbatim>\<open>None\<close>) for a pod that has not started.
\<close>

record V1Pod =
  metadata_name :: string
  status_phase :: string
  status_start_time :: "int option"

text \<open>
  The affinity of a build pod: a preferred node affinity (weight, hostname values) or a
  preferred pod anti-affinity (weight, topology key, \<^verbatim>\<open>component\<close> label to avoid).
\<close>

datatype V1Affinity =
    NodeAffinity nat "json list"
  | PodAntiAffinity nat string string

text \<open>
  The requests sent to the cluster. A create request carries the namespace and, of the
  pod manifest, the name, the container arguments and the affinity; a delete request
  carries name, namespace and \<^verbatim>\<open>grace_period_seconds\<close>; a list request carries
  namespace and label selector.
\<close>

datatype api_call =
    CreatePod string string "string list" V1Affinity
  | DeletePod string string nat
  | ListPods string string

fun is_delete :: "api_call \<Rightarrow> bool" where
  "is_delete (DeletePod _ _ _) = True"
| "is_delete _ = False"

fun is_create :: "api_call \<Rightarrow> bool" where
  "is_create (CreatePod _ _ _ _) = True"
| "is_create _ = False"

text \<open>
  The API client (\<^verbatim>\<open>kubernetes.client.CoreV1Api\<close>) is an external library. It is
  modelled by the log of the requests sent so far and by what the cluster answers:
  \<open>create_reply\<close> to the create call, \<open>delete_reply k\<close> to the \<open>k\<close>-th delete call
  (counted from 0), \<open>list_reply\<close> (a parsed JSON body) to the listing of image-builder
  pods, \<open>builds_reply\<close> to the listing of build pods. \<open>Inl e\<close> is the call raising \<open>e\<close>.
\<close>

record kube =
  requests :: "api_call list"
  create_reply :: "exn + unit"
  delete_reply :: "nat \<Rightarrow> exn + unit"
  list_reply :: "exn + json"
  builds_reply :: "exn + V1Pod list"

definition delete_namespaced_pod ::
    "kube \<Rightarrow> string \<Rightarrow> string \<Rightarrow> nat \<Rightarrow> (exn + unit) \<times> kube" where
  "delete_namespaced_pod k nm ns grace =
     (delete_reply k (length (filter is_delete (requests k))),
      k\<lparr>requests := requests k @ [DeletePod nm ns grace]\<rparr>)"

definition create_namespaced_pod ::
    "kube \<Rightarrow> string \<Rightarrow> string \<Rightarrow> string list \<Rightarrow> V1Affinity \<Rightarrow> (exn + unit) \<times> kube" where
  "create_namespaced_pod k ns nm args aff =
     (create_reply k, k\<lparr>requests := requests k @ [CreatePod ns nm args aff]\<rparr>)"

definition list_namespaced_pod_json ::
    "kube \<Rightarrow> string \<Rightarrow> string \<Rightarrow> (exn + json) \<times> kube" where
  "list_namespaced_pod_json k ns sel =
     (list_reply k, k\<lparr>requests := requests k @ [ListPods ns sel]\<rparr>)"

definition list_namespaced_pod ::
    "kube \<Rightarrow> string \<Rightarrow> string \<Rightarrow> (exn + V1Pod list) \<times> kube" where
  "list_namespaced_pod k ns sel =
     (builds_reply k, k\<lparr>requests := requests k @ [ListPods ns sel]\<rparr>)"

section \<open>KubernetesCleaner\<close>

text \<open>
  \<^verbatim>\<open>max_age\<close> is an \<^verbatim>\<open>Integer\<close> trait: any Python int, in seconds.
\<close>

record KubernetesCleaner =
  kube :: kube
  cleaner_namespace :: string
  max_age :: int

text \<open>
  \<^verbatim>\<open>datetime\<close> arithmetic. \<^verbatim>\<open>datetime.timedelta(seconds=n)\<close> raises \<^verbatim>\<open>OverflowError\<close>
  when the normalised number of days exceeds 999999999 in magnitude; subtracting a
  \<^verbatim>\<open>timedelta\<close> from a \<^verbatim>\<open>datetime\<close> raises \<^verbatim>\<open>OverflowError\<close> when the result leaves
  the years 1 to 9999.
\<close>

definition datetime_max :: int where
  "datetime_max = 3652059 * 86400 * 1000000 - 1"

definition timedelta_seconds :: "int \<Rightarrow> exn + int" where
  "timedelta_seconds n =
     (if \<bar>n div 86400\<bar> > 999999999 then Inl OverflowError else Inr (n * 1000000))"

definition datetime_sub :: "int \<Rightarrow> int \<Rightarrow> exn + int" where
  "datetime_sub t d =
     (if 0 \<le> t - d \<and> t - d \<le> datetime_max then Inr (t - d) else Inl OverflowError)"

text \<open>
  The decision taken for one listed pod: the value of the local variable \<^verbatim>\<open>delete\<close>
  when the loop body reaches \<^verbatim>\<open>if delete:\<close>.
\<close>

definition delete_decision :: "int \<Rightarrow> int \<Rightarrow> V1Pod \<Rightarrow> bool" where
  "delete_decision maxage start_cutoff build =
     (if status_phase build \<in> {''Failed'', ''Succeeded'', ''Evicted''} then True
      else maxage \<noteq> 0 \<and>
           (case status_start_time build of
              None \<Rightarrow> False
            | Some started \<Rightarrow> started < start_cutoff))"

text \<open>
  The state of one sweep: the API client, the counter \<^verbatim>\<open>deleted\<close> and the histogram
  \<^verbatim>\<open>phases\<close> (a \<^verbatim>\<open>defaultdict(int)\<close>).
\<close>

record sweep =
  sweep_kube :: kube
  deleted :: nat
  phases :: "string \<Rightarrow> nat"

fun sweep_builds ::
    "string \<Rightarrow> int \<Rightarrow> int \<Rightarrow> V1Pod list \<Rightarrow> sweep \<Rightarrow> (exn + unit) \<times> sweep" where
  "sweep_builds ns maxage start_cutoff [] s = (Inr (), s)"
| "sweep_builds ns maxage start_cutoff (build # builds) s =
     (let s1 = s\<lparr>phases := (phases s)(status_phase build := phases s (status_phase build) + 1)\<rparr>
      in if delete_decision maxage start_cutoff build then
           (let s2 = s1\<lparr>deleted := deleted s1 + 1\<rparr>;
                (r, k) = delete_namespaced_pod (sweep_kube s2) (metadata_name build) ns 0;
                s3 = s2\<lparr>sweep_kube := k\<rparr>
            in case r of
                 Inr _ \<Rightarrow> sweep_builds ns maxage start_cutoff builds s3
               | Inl (ApiException st) \<Rightarrow>
                   (if st = 404 then sweep_builds ns maxage start_cutoff builds s3
                    else (Inl (ApiException st), s3))
               | Inl e \<Rightarrow> (Inl e, s3))
         else sweep_builds ns maxage start_cutoff builds s1)"

text \<open>
  \<^verbatim>\<open>KubernetesCleaner.cleanup\<close>, given the clock reading \<open>now\<close>. The result is the
  exception raised or the report logged at the end (\<^verbatim>\<open>Deleted %i/%i build pods\<close>, logged
  only when the counter is not zero), together with the final sweep state.
\<close>

definition cleaner_cleanup ::
    "KubernetesCleaner \<Rightarrow> int \<Rightarrow> (exn + (nat \<times> nat) option) \<times> sweep" where
  "cleaner_cleanup c now =
     (let (r, k) = list_namespaced_pod (kube c) (cleaner_namespace c) ''component=binderhub-build'';
          s0 = \<lparr>sweep_kube = k, deleted = 0, phases = (\<lambda>_. 0)\<rparr>
      in case r of
           Inl e \<Rightarrow> (Inl e, s0)
         | Inr builds \<Rightarrow>
             (case timedelta_seconds (max_age c) of
                Inl e \<Rightarrow> (Inl e, s0)
              | Inr d \<Rightarrow>
                  (case datetime_sub now d of
                     Inl e \<Rightarrow> (Inl e, s0)
                   | Inr start_cutoff \<Rightarrow>
                       (case sweep_builds (cleaner_namespace c) (max_age c) start_cutoff builds s0 of
                          (Inl e, s) \<Rightarrow> (Inl e, s)
                        | (Inr _, s) \<Rightarrow>
                            (Inr (if deleted s \<noteq> 0 then Some (deleted s, length builds) else None),
                             s)))))"

section \<open>BuildExecutor and KubernetesBuildExecutor\<close>

text \<open>
  The pod manifest that \<^verbatim>\<open>submit\<close> builds (\<^verbatim>\<open>client.V1Pod(metadata=..., spec=...)\<close>):
  a volume is the host-path volume of the docker socket (name, path, type) or the secret
  volume of the push secret (name, secret name); a volume mount has a mount path, a
  name and an optional sub-path; a toleration has key, operator, value and effect; a
  pull secret is a reference by name.
\<close>

datatype V1Volume =
    HostPathVolume string string string
  | SecretVolume string string

datatype V1VolumeMount = VolumeMount string string "string option"

datatype V1Toleration = Toleration string string string string

datatype V1LocalObjectReference = LocalObjectReference string

record V1PodManifest =
  manifest_name :: string
  manifest_labels :: "(string \<times> string) list"
  manifest_annotations :: "(string \<times> string) list"
  container_image :: string
  container_name :: string
  container_args :: "string list"
  container_volume_mounts :: "V1VolumeMount list"
  limits_memory :: int
  requests_memory :: int
  requests_cpu :: "string option"
  container_env :: "(string \<times> string) list"
  manifest_tolerations :: "V1Toleration list"
  manifest_node_selector :: "(string \<times> string) list"
  manifest_volumes :: "V1Volume list"
  manifest_restart_policy :: string
  manifest_affinity :: V1Affinity
  manifest_image_pull_secrets :: "V1LocalObjectReference list"

text \<open>
  The attribute \<^verbatim>\<open>self.pod\<close>: not set before \<^verbatim>\<open>submit\<close>, then the manifest that
  \<^verbatim>\<open>submit\<close> has built, then the object of the last watch event.
\<close>

datatype pod_attribute = Unset | Manifest V1PodManifest | Observed V1Pod

text \<open>
  The executor object: the configuration traits that the modelled methods read, and the
  mutable parts: the API client \<open>api\<close>, the cancellation flag \<open>stop_event\<close> (a
  \<^verbatim>\<open>threading.Event\<close>), the progress queue \<open>q\<close> (the events put on it, oldest first)
  and the attribute \<open>pod\<close>. The dict traits (\<^verbatim>\<open>registry_credentials\<close>,
  \<^verbatim>\<open>node_selector\<close>, \<^verbatim>\<open>extra_envs\<close>) are the lists of their items;
  \<^verbatim>\<open>memory_limit\<close> and \<^verbatim>\<open>memory_request\<close> are \<^verbatim>\<open>ByteSpecification\<close> traits, whose
  value is an int; \<^verbatim>\<open>docker_host\<close> may be \<^verbatim>\<open>None\<close>.
\<close>

record KubernetesBuildExecutor =
  name :: string
  repo_url :: string
  ref :: string
  image_name :: string
  git_credentials :: string
  push_secret :: string
  registry_credentials :: "(string \<times> string) list"
  memory_limit :: int
  appendix :: string
  repo2docker_extra_args :: "string list"
  namespace :: string
  build_image :: string
  image_pull_secrets :: "string list"
  docker_host :: "string option"
  cpu_request :: string
  memory_request :: int
  node_selector :: "(string \<times> string) list"
  extra_envs :: "(string \<times> string) list"
  sticky_builds :: bool
  component_label :: string
  api :: kube
  stop_event :: bool
  q :: "ProgressEvent list"
  pod :: pod_attribute

subsection \<open>The repo2docker command\<close>

text \<open>Python's \<^verbatim>\<open>str\<close> of an int: decimal digits, with a minus sign when negative.\<close>

fun str_nat :: "nat \<Rightarrow> string" where
  "str_nat n =
     (if n < 10 then [''0123456789'' ! n]
      else str_nat (n div 10) @ [''0123456789'' ! (n mod 10)])"

declare str_nat.simps [simp del]

definition str_int :: "int \<Rightarrow> string" where
  "str_int i = (if i < 0 then CHR ''-'' # str_nat (nat (- i)) else str_nat (nat i))"

definition get_r2d_cmd_options :: "KubernetesBuildExecutor \<Rightarrow> string list" where
  "get_r2d_cmd_options self =
     [''--ref='' @ ref self,
      ''--image='' @ image_name self,
      ''--no-clean'',
      ''--no-run'',
      ''--json-logs'',
      ''--user-name=jovyan'',
      ''--user-id=1000'']
     @ (if appendix self \<noteq> [] then [''--appendix'', appendix self] else [])
     @ (if push_secret self \<noteq> [] then [''--push''] else [])
     @ (if memory_limit self \<noteq> 0
        then [''--build-memory-limit'', str_int (memory_limit self)] else [])
     @ repo2docker_extra_args self"

definition get_cmd :: "KubernetesBuildExecutor \<Rightarrow> string list" where
  "get_cmd self = ([''jupyter-repo2docker''] @ get_r2d_cmd_options self) @ [repo_url self]"

text \<open>
  Push credentials are configured when the static \<^verbatim>\<open>push_secret\<close> is set or when
  dynamic \<^verbatim>\<open>registry_credentials\<close> are supplied (the trait's help: ``if provided this
  will be used instead of push\_secret'').
\<close>

definition push_credentials_configured :: "KubernetesBuildExecutor \<Rightarrow> bool" where
  "push_credentials_configured self \<longleftrightarrow>
     \<not> (push_secret self = [] \<and> registry_credentials self = [])"

subsection \<open>progress, stop, cleanup\<close>

definition progress ::
    "KubernetesBuildExecutor \<Rightarrow> Kind \<Rightarrow> payload \<Rightarrow> KubernetesBuildExecutor" where
  "progress self knd pl = self\<lparr>q := q self @ [ProgressEvent knd pl]\<rparr>"

definition stop :: "KubernetesBuildExecutor \<Rightarrow> KubernetesBuildExecutor" where
  "stop self = self\<lparr>stop_event := True\<rparr>"

definition cleanup :: "KubernetesBuildExecutor \<Rightarrow> (exn + unit) \<times> KubernetesBuildExecutor" where
  "cleanup self =
     (let (r, k) = delete_namespaced_pod (api self) (name self) (namespace self) 0;
          self1 = self\<lparr>api := k\<rparr>
      in case r of
           Inr _ \<Rightarrow> (Inr (), self1)
         | Inl (ApiException st) \<Rightarrow>
             (if st = 404 then (Inr (), self1) else (Inl (ApiException st), self1))
         | Inl e \<Rightarrow> (Inl e, self1))"

subsection \<open>Affinity\<close>

text \<open>Python's truth value of a parsed JSON value, subscription by a string key, and iteration.\<close>

fun truthy :: "json \<Rightarrow> bool" where
  "truthy JNull = False"
| "truthy (JBool b) = b"
| "truthy (JNum n) = (n \<noteq> 0)"
| "truthy (JStr s) = (s \<noteq> [])"
| "truthy (JArr xs) = (xs \<noteq> [])"
| "truthy (JObj kvs) = (kvs \<noteq> [])"

fun getitem :: "json \<Rightarrow> string \<Rightarrow> exn + json" where
  "getitem (JObj kvs) key = (case map_of kvs key of None \<Rightarrow> Inl (KeyError key) | Some v \<Rightarrow> Inr v)"
| "getitem _ key = Inl TypeError"

fun iter_json :: "json \<Rightarrow> exn + json list" where
  "iter_json (JArr xs) = Inr xs"
| "iter_json (JObj kvs) = Inr (map (\<lambda>kv. JStr (fst kv)) kvs)"
| "iter_json (JStr s) = Inr (map (\<lambda>c. JStr [c]) s)"
| "iter_json _ = Inl TypeError"

text \<open>The list comprehension \<^verbatim>\<open>[pod["spec"]["nodeName"] for pod in items]\<close>.\<close>

fun node_names_of :: "json list \<Rightarrow> exn + json list" where
  "node_names_of [] = Inr []"
| "node_names_of (p # ps) =
     (case getitem p ''spec'' of
        Inl e \<Rightarrow> Inl e
      | Inr spec \<Rightarrow>
          (case getitem spec ''nodeName'' of
             Inl e \<Rightarrow> Inl e
           | Inr n \<Rightarrow>
               (case node_names_of ps of
                  Inl e \<Rightarrow> Inl e
                | Inr ns \<Rightarrow> Inr (n # ns))))"

text \<open>
  Modelled from the spec: \<^verbatim>\<open>rendezvous_rank\<close> of \<^verbatim>\<open>binderhub/utils.py\<close>, which is not
  among the sources. The spec: ``rank all candidate nodes by a rendezvous-hash score
  keyed on (node, key) [...]; sort descending''. The hash is the parameter \<open>score\<close>.
\<close>

definition rendezvous_rank :: "(json \<Rightarrow> string \<Rightarrow> nat) \<Rightarrow> json list \<Rightarrow> string \<Rightarrow> json list" where
  "rendezvous_rank score buckets key = rev (sort_key (\<lambda>b. score b key) buckets)"

definition get_affinity ::
    "(json \<Rightarrow> string \<Rightarrow> nat) \<Rightarrow> KubernetesBuildExecutor
       \<Rightarrow> (exn + V1Affinity) \<times> KubernetesBuildExecutor" where
  "get_affinity score self =
     (let (r, k) = list_namespaced_pod_json (api self) (namespace self)
                     ''component=image-builder,app=binder'';
          self1 = self\<lparr>api := k\<rparr>
      in case r of
           Inl e \<Rightarrow> (Inl e, self1)
         | Inr image_builder_pods \<Rightarrow>
             (if sticky_builds self1 \<and> truthy image_builder_pods then
                (case getitem image_builder_pods ''items'' of
                   Inl e \<Rightarrow> (Inl e, self1)
                 | Inr its \<Rightarrow>
                     (case iter_json its of
                        Inl e \<Rightarrow> (Inl e, self1)
                      | Inr pods \<Rightarrow>
                          (case node_names_of pods of
                             Inl e \<Rightarrow> (Inl e, self1)
                           | Inr node_names \<Rightarrow>
                               (case rendezvous_rank score node_names (repo_url self1) of
                                  [] \<Rightarrow> (Inl IndexError, self1)
                                | best_node_name # _ \<Rightarrow>
                                    (Inr (NodeAffinity 100 [best_node_name]), self1)))))
              else
                (Inr (PodAntiAffinity 100 ''kubernetes.io/hostname'' (component_label self1)),
                 self1)))"

text \<open>
  The number of active image-builder pods that a listing reports: the length of its
  \<^verbatim>\<open>items\<close>, when the body is a pod list.
\<close>

definition active_pods :: "json \<Rightarrow> nat" where
  "active_pods body = (case getitem body ''items'' of Inr (JArr xs) \<Rightarrow> length xs | _ \<Rightarrow> 0)"

subsection \<open>submit: creation and the watch loop\<close>

text \<open>
  What happens while \<^verbatim>\<open>submit\<close> watches, in order: another thread calls \<^verbatim>\<open>stop()\<close>;
  the watch stream yields an event (its \<^verbatim>\<open>type\<close> and its \<^verbatim>\<open>object\<close>); the stream
  ends (its 30 seconds timeout); the stream raises. A finite list of these is a prefix of
  what the cluster delivers: when it is used up the executor is still watching.
\<close>

datatype watch_input =
    StopCalled
  | WatchEvent string V1Pod
  | StreamEnds
  | StreamRaises exn

datatype outcome = Returned | Raised exn | Watching

text \<open>
  The loop body for an event that is not a deletion (from \<^verbatim>\<open>self.pod = f["object"]\<close>
  on). An unrecognised phase only issues a warning. Calls to the logger change nothing
  that is modelled and are left out, here and below.
\<close>

definition on_event ::
    "KubernetesBuildExecutor \<Rightarrow> V1Pod \<Rightarrow> (exn + unit) \<times> KubernetesBuildExecutor" where
  "on_event self obj =
     (let self1 = self\<lparr>pod := Observed obj\<rparr>;
          self2 =
            (if \<not> stop_event self1 then
               (let phase = status_phase obj
                in if phase = ''Pending'' then progress self1 BUILD_STATUS_CHANGE (Status PENDING)
                   else if phase = ''Running'' then progress self1 BUILD_STATUS_CHANGE (Status RUNNING)
                   else if phase = ''Succeeded'' then self1
                   else if phase = ''Failed'' then progress self1 BUILD_STATUS_CHANGE (Status FAILED)
                   else if phase = ''Unknown'' then progress self1 BUILD_STATUS_CHANGE (Status UNKNOWN)
                   else self1)
             else self1)
      in if status_phase obj = ''Succeeded'' then cleanup self2
         else if status_phase obj = ''Failed'' then cleanup self2
         else (Inr (), self2))"

text \<open>
  \<open>watch_loop\<close> is the head of the \<^verbatim>\<open>while not self.stop_event.is_set()\<close> loop,
  \<open>watch_stream\<close> the \<^verbatim>\<open>for f in w.stream(...)\<close> loop inside it, followed by the check
  of \<^verbatim>\<open>stop_event\<close> after the stream has ended. An exception inside the stream is logged
  and raised again (\<^verbatim>\<open>except Exception: ... raise\<close>), so it is the outcome of the loop.
  When the \<^verbatim>\<open>while\<close> condition fails the method falls off its end and returns.
\<close>

fun watch_loop ::
      "KubernetesBuildExecutor \<Rightarrow> watch_input list \<Rightarrow> outcome \<times> KubernetesBuildExecutor"
  and watch_stream ::
      "KubernetesBuildExecutor \<Rightarrow> watch_input list \<Rightarrow> outcome \<times> KubernetesBuildExecutor"
where
  "watch_loop self ins =
     (if \<not> stop_event self then watch_stream self ins else (Returned, self))"
| "watch_stream self [] = (Watching, self)"
| "watch_stream self (StopCalled # ins) = watch_stream (stop self) ins"
| "watch_stream self (StreamRaises e # ins) = (Raised e, self)"
| "watch_stream self (StreamEnds # ins) =
     (if stop_event self then (Returned, self) else watch_loop self ins)"
| "watch_stream self (WatchEvent typ obj # ins) =
     (if typ = ''DELETED'' then
        (if status_phase obj = ''Succeeded''
         then (Returned, progress self BUILD_STATUS_CHANGE (Status BUILT))
         else (Returned, progress self BUILD_STATUS_CHANGE (Status FAILED)))
      else
        (case on_event self obj of
           (Inl e, self') \<Rightarrow> (Raised e, self')
         | (Inr _, self') \<Rightarrow> watch_stream self' ins))"

text \<open>
  \<^verbatim>\<open>get_builder_volumes\<close>: the volumes and the volume mounts of the build pod.
  \<open>urlparse_path\<close> is \<^verbatim>\<open>urlparse(...).path\<close> of the standard library, a parameter; it
  can raise (\<^verbatim>\<open>ValueError\<close> on a malformed URL).
\<close>

definition get_builder_volumes ::
    "(string \<Rightarrow> exn + string) \<Rightarrow> KubernetesBuildExecutor
       \<Rightarrow> exn + (V1Volume list \<times> V1VolumeMount list)" where
  "get_builder_volumes urlparse_path self =
     (case (case docker_host self of
              None \<Rightarrow> Inr ([], [])
            | Some host \<Rightarrow>
                (case urlparse_path host of
                   Inl e \<Rightarrow> Inl e
                 | Inr docker_socket_path \<Rightarrow>
                     Inr ([HostPathVolume ''docker-socket'' docker_socket_path ''Socket''],
                          [VolumeMount ''/var/run/docker.sock'' ''docker-socket'' None]))) of
        Inl e \<Rightarrow> Inl e
      | Inr (volumes, volume_mounts) \<Rightarrow>
          (if registry_credentials self = [] \<and> push_secret self \<noteq> [] then
             Inr (volumes @ [SecretVolume ''docker-config'' (push_secret self)],
                  volume_mounts @
                    [VolumeMount ''/root/.docker/config.json'' ''docker-config''
                       (Some ''config.json'')])
           else Inr (volumes, volume_mounts)))"

definition get_image_pull_secrets ::
    "KubernetesBuildExecutor \<Rightarrow> V1LocalObjectReference list" where
  "get_image_pull_secrets self = map LocalObjectReference (image_pull_secrets self)"

text \<open>
  The environment of the container, built at the start of \<^verbatim>\<open>submit\<close>. \<open>dumps\<close> is
  \<^verbatim>\<open>json.dumps\<close>, a parameter; it can raise.
\<close>

definition build_env ::
    "(json \<Rightarrow> exn + string) \<Rightarrow> KubernetesBuildExecutor \<Rightarrow> exn + (string \<times> string) list" where
  "build_env dumps self =
     (let env = extra_envs self;
          env1 = (if git_credentials self \<noteq> []
                  then env @ [(''GIT_CREDENTIAL_ENV'', git_credentials self)] else env)
      in if registry_credentials self \<noteq> [] then
           (case dumps (JObj (map (\<lambda>kv. (fst kv, JStr (snd kv))) (registry_credentials self))) of
              Inl e \<Rightarrow> Inl e
            | Inr value \<Rightarrow> Inr (env1 @ [(''CONTAINER_ENGINE_REGISTRY_CREDENTIALS'', value)]))
         else Inr env1)"

text \<open>The manifest, from the executor and the parts computed for it.\<close>

definition pod_manifest ::
    "KubernetesBuildExecutor \<Rightarrow> V1Volume list \<Rightarrow> V1VolumeMount list \<Rightarrow> (string \<times> string) list
       \<Rightarrow> V1Affinity \<Rightarrow> V1PodManifest" where
  "pod_manifest self volumes volume_mounts env affinity =
     \<lparr>manifest_name = name self,
      manifest_labels = [(''name'', name self), (''component'', component_label self)],
      manifest_annotations = [(''binder-repo'', repo_url self)],
      container_image = build_image self,
      container_name = ''builder'',
      container_args = get_cmd self,
      container_volume_mounts = volume_mounts,
      limits_memory = memory_limit self,
      requests_memory = memory_request self,
      requests_cpu = (if cpu_request self = [] then None else Some (cpu_request self)),
      container_env = env,
      manifest_tolerations =
        [Toleration ''hub.jupyter.org/dedicated'' ''Equal'' ''user'' ''NoSchedule'',
         Toleration ''hub.jupyter.org_dedicated'' ''Equal'' ''user'' ''NoSchedule''],
      manifest_node_selector = node_selector self,
      manifest_volumes = volumes,
      manifest_restart_policy = ''Never'',
      manifest_affinity = affinity,
      manifest_image_pull_secrets = get_image_pull_secrets self\<rparr>"

text \<open>
  The first part of \<^verbatim>\<open>submit\<close>, up to the value of \<^verbatim>\<open>client.V1Pod(...)\<close>: the volumes,
  the environment, then the manifest, whose arguments are evaluated in order, the call of
  \<^verbatim>\<open>get_affinity\<close> among them. Each of the three can raise.
\<close>

definition build_pod ::
    "(json \<Rightarrow> string \<Rightarrow> nat) \<Rightarrow> (string \<Rightarrow> exn + string) \<Rightarrow> (json \<Rightarrow> exn + string)
       \<Rightarrow> KubernetesBuildExecutor \<Rightarrow> (exn + V1PodManifest) \<times> KubernetesBuildExecutor" where
  "build_pod score urlparse_path dumps self =
     (case get_builder_volumes urlparse_path self of
        Inl e \<Rightarrow> (Inl e, self)
      | Inr (volumes, volume_mounts) \<Rightarrow>
          (case build_env dumps self of
             Inl e \<Rightarrow> (Inl e, self)
           | Inr env \<Rightarrow>
               (case get_affinity score self of
                  (Inl e, self1) \<Rightarrow> (Inl e, self1)
                | (Inr affinity, self1) \<Rightarrow>
                    (Inr (pod_manifest self volumes volume_mounts env affinity), self1))))"

text \<open>
  \<^verbatim>\<open>submit\<close>: the manifest is built and stored in \<^verbatim>\<open>self.pod\<close>, then the create call is
  made with it, then the pod is watched.
\<close>

definition submit ::
    "(json \<Rightarrow> string \<Rightarrow> nat) \<Rightarrow> (string \<Rightarrow> exn + string) \<Rightarrow> (json \<Rightarrow> exn + string)
       \<Rightarrow> KubernetesBuildExecutor \<Rightarrow> watch_input list
       \<Rightarrow> outcome \<times> KubernetesBuildExecutor" where
  "submit score urlparse_path dumps self ins =
     (case build_pod score urlparse_path dumps self of
        (Inl e, self1) \<Rightarrow> (Raised e, self1)
      | (Inr manifest, self1) \<Rightarrow>
          (let self2 = self1\<lparr>pod := Manifest manifest\<rparr>;
               (r, k) = create_namespaced_pod (api self2) (namespace self2)
                          (manifest_name manifest) (container_args manifest)
                          (manifest_affinity manifest);
               self3 = self2\<lparr>api := k\<rparr>
           in case r of
                Inr _ \<Rightarrow> watch_loop self3 ins
              | Inl (ApiException st) \<Rightarrow>
                  (if st = 409 then watch_loop self3 ins
                   else (Raised (ApiException st), self3))
              | Inl e \<Rightarrow> (Raised e, self3)))"

subsection \<open>stream\_logs\<close>

text \<open>
  What happens while \<^verbatim>\<open>stream_logs\<close> reads: another thread calls \<^verbatim>\<open>stop()\<close>; the
  stream yields a line (bytes); the read raises. The end of the list is the end of the
  stream. The standard library is a parameter: \<open>decode\<close> is \<^verbatim>\<open>bytes.decode("utf-8")\<close>,
  \<open>loads\<close> is \<^verbatim>\<open>json.loads\<close> and \<open>dumps\<close> is \<^verbatim>\<open>json.dumps\<close>.
\<close>

datatype log_input =
    LogStopCalled
  | LogLine string
  | LogRaises exn

fun stream_logs ::
    "(string \<Rightarrow> exn + string) \<Rightarrow> (string \<Rightarrow> exn + json) \<Rightarrow> (json \<Rightarrow> string)
       \<Rightarrow> KubernetesBuildExecutor \<Rightarrow> log_input list \<Rightarrow> outcome \<times> KubernetesBuildExecutor" where
  "stream_logs decode loads dumps self [] = (Returned, self)"
| "stream_logs decode loads dumps self (LogStopCalled # ins) =
     stream_logs decode loads dumps (stop self) ins"
| "stream_logs decode loads dumps self (LogRaises e # ins) = (Raised e, self)"
| "stream_logs decode loads dumps self (LogLine bytes # ins) =
     (if stop_event self then (Returned, self)
      else
        (case decode bytes of
           Inl e \<Rightarrow> (Raised e, self)
         | Inr line \<Rightarrow>
             (case loads line of
                Inr _ \<Rightarrow>
                  stream_logs decode loads dumps (progress self LOG_MESSAGE (Line line)) ins
              | Inl ValueError \<Rightarrow>
                  stream_logs decode loads dumps
                    (progress self LOG_MESSAGE
                       (Line (dumps (JObj [(''phase'', JStr ''unknown''), (''message'', JStr line)]))))
                    ins
              | Inl e \<Rightarrow> (Raised e, self))))"

section \<open>Example configurations\<close>

text \<open>
  Concrete clusters, executors and inputs, on which the theorems below are instantiated
  and the code is run. Instants are microseconds since 0001-01-01T00:00:00 UTC.
\<close>

definition ex_now :: int where
  "ex_now = 63900000000000000"

definition not_found_then_ok :: "nat \<Rightarrow> exn + unit" where
  "not_found_then_ok k = (if k = 0 then Inl (ApiException 404) else Inr ())"

definition ok_then_not_found :: "nat \<Rightarrow> exn + unit" where
  "ok_then_not_found k = (if k = 0 then Inr () else Inl (ApiException 404))"

definition always_500 :: "nat \<Rightarrow> exn + unit" where
  "always_500 k = Inl (ApiException 500)"

definition ex_builds :: "V1Pod list" where
  "ex_builds =
     [\<lparr>metadata_name = ''build-a'', status_phase = ''Succeeded'',
        status_start_time = Some (ex_now - 10 * 1000000)\<rparr>,
      \<lparr>metadata_name = ''build-b'', status_phase = ''Running'',
        status_start_time = Some (ex_now - 18000 * 1000000)\<rparr>,
      \<lparr>metadata_name = ''build-c'', status_phase = ''Running'',
        status_start_time = Some (ex_now - 3600 * 1000000)\<rparr>,
      \<lparr>metadata_name = ''build-d'', status_phase = ''Pending'',
        status_start_time = None\<rparr>]"

definition ex_kube :: "(nat \<Rightarrow> exn + unit) \<Rightarrow> V1Pod list \<Rightarrow> kube" where
  "ex_kube replies builds =
     \<lparr>requests = [], create_reply = Inr (), delete_reply = replies,
      list_reply = Inr (JObj [(''items'', JArr [])]), builds_reply = Inr builds\<rparr>"

definition conflict_kube :: kube where
  "conflict_kube = (ex_kube ok_then_not_found [])\<lparr>create_reply := Inl (ApiException 409)\<rparr>"

definition ex_cleaner :: KubernetesCleaner where
  "ex_cleaner = \<lparr>kube = ex_kube not_found_then_ok ex_builds, cleaner_namespace = ''default'',
                  max_age = 14400\<rparr>"

definition fresh_builds :: "V1Pod list" where
  "fresh_builds = [\<lparr>metadata_name = ''build-e'', status_phase = ''Running'',
                     status_start_time = Some ex_now\<rparr>]"

definition negative_age_cleaner :: KubernetesCleaner where
  "negative_age_cleaner = \<lparr>kube = ex_kube not_found_then_ok fresh_builds,
                            cleaner_namespace = ''default'', max_age = - 1\<rparr>"

definition failing_cleaner :: KubernetesCleaner where
  "failing_cleaner = \<lparr>kube = ex_kube always_500 ex_builds, cleaner_namespace = ''default'',
                       max_age = 14400\<rparr>"

definition ex_executor :: "kube \<Rightarrow> KubernetesBuildExecutor" where
  "ex_executor k =
     \<lparr>name = ''build-x'', repo_url = ''https://github.com/org/repo'', ref = ''main'',
      image_name = ''registry/org-repo:main'', git_credentials = [],
      push_secret = ''binder-build-docker-config'',
      registry_credentials = [], memory_limit = 0, appendix = [],
      repo2docker_extra_args = [], namespace = ''default'',
      build_image = ''quay.io/jupyterhub/repo2docker:2024.07.0'', image_pull_secrets = [],
      docker_host = Some ''/var/run/docker.sock'', cpu_request = [], memory_request = 0,
      node_selector = [], extra_envs = [], sticky_builds = False,
      component_label = ''binderhub-build'', api = k, stop_event = False, q = [],
      pod = Unset\<rparr>"


definition pod_in_phase :: "string \<Rightarrow> V1Pod" where
  "pod_in_phase ph = \<lparr>metadata_name = ''build-x'', status_phase = ph, status_start_time = Some 0\<rparr>"

definition ex_score :: "json \<Rightarrow> string \<Rightarrow> nat" where
  "ex_score bucket key = (case bucket of JStr s \<Rightarrow> length s + length key | _ \<Rightarrow> 0)"

definition empty_pod_list :: json where
  "empty_pod_list = JObj [(''kind'', JStr ''PodList''), (''items'', JArr [])]"

definition sticky_executor :: KubernetesBuildExecutor where
  "sticky_executor =
     (ex_executor ((ex_kube ok_then_not_found [])\<lparr>list_reply := Inr empty_pod_list\<rparr>))
       \<lparr>sticky_builds := True\<rparr>"

definition dynamic_credentials_executor :: KubernetesBuildExecutor where
  "dynamic_credentials_executor =
     (ex_executor (ex_kube ok_then_not_found []))
       \<lparr>push_secret := [],
        registry_credentials :=
          [(''registry'', ''docker.io''), (''username'', ''user''), (''password'', ''password'')],
        memory_limit := 2147483648\<rparr>"

text \<open>
  Stand-ins for the standard library in the examples: \<open>ex_decode\<close> accepts ASCII bytes and
  rejects every other byte sequence (as UTF-8 decoding does for a lone byte \<open>0xFF\<close>),
  \<open>ex_loads\<close> recognises the two documents \<^verbatim>\<open>{}\<close> and \<^verbatim>\<open>null\<close> and raises
  \<^verbatim>\<open>RecursionError\<close> on the line of 2000 opening brackets, as \<^verbatim>\<open>json.loads\<close> does
  (its nesting exceeds the recursion limit), and \<open>ex_dumps\<close> writes an object of two
  string members the way \<^verbatim>\<open>json.dumps\<close> does when the strings need no escaping.
\<close>

definition ex_decode :: "string \<Rightarrow> exn + string" where
  "ex_decode bytes =
     (if list_all (\<lambda>c. of_char c < (128::nat)) bytes then Inr bytes else Inl UnicodeDecodeError)"

definition deep_line :: string where
  "deep_line = replicate 2000 (CHR ''['')"

definition ex_loads :: "string \<Rightarrow> exn + json" where
  "ex_loads line =
     (if line = ''{}'' then Inr (JObj [])
      else if line = ''null'' then Inr JNull
      else if line = deep_line then Inl RecursionError
      else Inl ValueError)"

fun quoted :: "string \<Rightarrow> string" where
  "quoted s = [CHR 0x22] @ s @ [CHR 0x22]"

fun ex_dumps :: "json \<Rightarrow> string" where
  "ex_dumps (JObj [(k1, JStr v1), (k2, JStr v2)]) =
     ''{'' @ quoted k1 @ '': '' @ quoted v1 @ '', '' @ quoted k2 @ '': '' @ quoted v2 @ ''}''"
| "ex_dumps _ = ''null''"

text \<open>
  For \<^verbatim>\<open>submit\<close>: \<open>ex_urlparse_path\<close> agrees with \<^verbatim>\<open>urlparse(...).path\<close> on a plain
  absolute path such as \<^verbatim>\<open>/var/run/docker.sock\<close>, which is its own path, and on the
  malformed URL \<^verbatim>\<open>http://[\<close>, on which \<^verbatim>\<open>urlparse\<close> raises \<^verbatim>\<open>ValueError\<close>;
  \<open>ex_json_dumps\<close> is \<open>ex_dumps\<close>, never raising.
\<close>

definition ex_urlparse_path :: "string \<Rightarrow> exn + string" where
  "ex_urlparse_path url = (if url = ''http://['' then Inl ValueError else Inr url)"

definition ex_json_dumps :: "json \<Rightarrow> exn + string" where
  "ex_json_dumps v = Inr (ex_dumps v)"

definition unlistable_kube :: kube where
  "unlistable_kube = (ex_kube ok_then_not_found [])\<lparr>list_reply := Inl (ApiException 403)\<rparr>"

section \<open>Properties of the cleaner\<close>

lemma sweep_builds_requests:
  "sweep_builds ns m c bs s = (Inr (), s') \<Longrightarrow>
     requests (sweep_kube s') =
       requests (sweep_kube s) @ map (\<lambda>b. DeletePod (metadata_name b) ns 0) (filter (delete_decision m c) bs)
     \<and> deleted s' = deleted s + length (filter (delete_decision m c) bs)"
proof (induction bs arbitrary: s)
  case Nil
  then show ?case by simp
next
  case (Cons b bs)
  show ?case
  proof (cases "delete_decision m c b")
    case False
    with Cons.prems Cons.IH show ?thesis by (simp add: Let_def)
  next
    case True
    with Cons.prems Cons.IH show ?thesis
      by (auto simp: Let_def delete_namespaced_pod_def split: sum.splits exn.splits if_splits prod.splits)
  qed
qed

lemma sweep_builds_counter:
  "sweep_builds ns m c bs s = (r, s') \<Longrightarrow>
     length (filter is_delete (requests (sweep_kube s'))) + deleted s
       = length (filter is_delete (requests (sweep_kube s))) + deleted s'"
proof (induction bs arbitrary: s)
  case Nil
  then show ?case by simp
next
  case (Cons b bs)
  show ?case
  proof (cases "delete_decision m c b")
    case False
    with Cons.prems Cons.IH[of "s\<lparr>phases := (phases s)(status_phase b := phases s (status_phase b) + 1)\<rparr>"] show ?thesis by (simp add: Let_def)
  next
    case True
    with Cons.prems Cons.IH show ?thesis
      by (fastforce simp: Let_def delete_namespaced_pod_def split: sum.splits exn.splits if_splits prod.splits)
  qed
qed

lemma delete_decision_iff:
  "delete_decision m c b \<longleftrightarrow>
     status_phase b \<in> {''Failed'', ''Succeeded'', ''Evicted''}
     \<or> (m \<noteq> 0 \<and> (\<exists>t. status_start_time b = Some t \<and> t < c))"
  by (auto simp: delete_decision_def split: option.splits)

lemma cleaner_cleanup_completes:
  assumes "cleaner_cleanup c now = (Inr rep, s)" and "builds_reply (kube c) = Inr builds"
  shows "sweep_builds (cleaner_namespace c) (max_age c) (now - max_age c * 1000000) builds
           \<lparr>sweep_kube = (kube c)\<lparr>requests := requests (kube c) @
                [ListPods (cleaner_namespace c) ''component=binderhub-build'']\<rparr>,
             deleted = 0, phases = (\<lambda>_. 0)\<rparr> = (Inr (), s)
         \<and> rep = (if deleted s \<noteq> 0 then Some (deleted s, length builds) else None)"
  using assms
  by (auto simp: cleaner_cleanup_def list_namespaced_pod_def timedelta_seconds_def datetime_sub_def
           split: sum.splits if_splits prod.splits)

lemma ex_cleaner_run:
  "fst (cleaner_cleanup ex_cleaner ex_now) = Inr (Some (2, 4))
   \<and> requests (sweep_kube (snd (cleaner_cleanup ex_cleaner ex_now))) =
       [ListPods ''default'' ''component=binderhub-build'',
        DeletePod ''build-a'' ''default'' 0,
        DeletePod ''build-b'' ''default'' 0]
   \<and> deleted (snd (cleaner_cleanup ex_cleaner ex_now)) = 2"
  by (simp add: cleaner_cleanup_def ex_cleaner_def ex_kube_def ex_builds_def ex_now_def
      not_found_then_ok_def list_namespaced_pod_def timedelta_seconds_def datetime_sub_def
      datetime_max_def delete_decision_def delete_namespaced_pod_def Let_def)

section \<open>Properties of the executor's building blocks\<close>

lemma cleanup_fields [simp]:
  "stop_event (snd (cleanup self)) = stop_event self"
  "q (snd (cleanup self)) = q self"
  "name (snd (cleanup self)) = name self"
  "namespace (snd (cleanup self)) = namespace self"
  "delete_reply (api (snd (cleanup self))) = delete_reply (api self)"
  "create_reply (api (snd (cleanup self))) = create_reply (api self)"
  "requests (api (snd (cleanup self))) =
     requests (api self) @ [DeletePod (name self) (namespace self) 0]"
  by (auto simp: cleanup_def delete_namespaced_pod_def Let_def split: sum.splits exn.splits prod.splits)

lemma progress_fields [simp]:
  "stop_event (progress self k p) = stop_event self"
  "q (progress self k p) = q self @ [ProgressEvent k p]"
  "api (progress self k p) = api self"
  "name (progress self k p) = name self"
  "namespace (progress self k p) = namespace self"
  by (simp_all add: progress_def)

lemma stop_fields [simp]:
  "stop_event (stop self) = True"
  "q (stop self) = q self"
  "api (stop self) = api self"
  "name (stop self) = name self"
  "namespace (stop self) = namespace self"
  by (simp_all add: stop_def)



lemma on_event_requests:
  "requests (api (snd (on_event self obj))) =
     requests (api self) @
       (if status_phase obj = ''Succeeded'' \<or> status_phase obj = ''Failed''
        then [DeletePod (name self) (namespace self) 0] else [])"
  by (simp add: on_event_def Let_def)

lemma get_affinity_state:
  "snd (get_affinity score self) =
     self\<lparr>api := (api self)\<lparr>requests := requests (api self) @
        [ListPods (namespace self) ''component=image-builder,app=binder'']\<rparr>\<rparr>"
  by (simp add: get_affinity_def list_namespaced_pod_json_def Let_def
           split: sum.splits list.splits)

lemma build_pod_raises:
  "build_pod score urlparse_path json_dumps self = (Inl e, self1) \<Longrightarrow>
     self1 = self
     \<or> self1 = self\<lparr>api := (api self)\<lparr>requests := requests (api self) @
              [ListPods (namespace self) ''component=image-builder,app=binder'']\<rparr>\<rparr>"
  using get_affinity_state[of score self]
  by (auto simp: build_pod_def split: sum.splits prod.splits)

lemma build_pod_built:
  "build_pod score urlparse_path json_dumps self = (Inr manifest, self1) \<Longrightarrow>
     self1 = self\<lparr>api := (api self)\<lparr>requests := requests (api self) @
              [ListPods (namespace self) ''component=image-builder,app=binder'']\<rparr>\<rparr>
     \<and> manifest_name manifest = name self
     \<and> container_args manifest = get_cmd self"
  using get_affinity_state[of score self]
  by (auto simp: build_pod_def pod_manifest_def get_cmd_def get_r2d_cmd_options_def
           split: sum.splits prod.splits)


subsection \<open>The watch loop\<close>



lemma watch_stream_append:
  "watch_stream self pre = (Watching, self') \<Longrightarrow>
     watch_stream self (pre @ ins) = watch_stream self' ins"
proof (induction pre arbitrary: self)
  case Nil
  then show ?case by simp
next
  case (Cons x pre)
  show ?case
  proof (cases x)
    case StopCalled
    with Cons show ?thesis by simp
  next
    case (WatchEvent ty obj)
    with Cons show ?thesis
      by (auto split: if_splits prod.splits sum.splits)
  next
    case StreamEnds
    with Cons show ?thesis by (auto split: if_splits)
  next
    case (StreamRaises e)
    with Cons show ?thesis by simp
  qed
qed

lemma watch_loop_append:
  "watch_loop self pre = (Watching, self') \<Longrightarrow>
     watch_loop self (pre @ ins) = watch_stream self' ins"
  by (auto simp: watch_stream_append split: if_splits)

lemma watch_stream_no_create:
  "filter is_create (requests (api (snd (watch_stream self ins))))
     = filter is_create (requests (api self))"
proof (induction ins arbitrary: self)
  case Nil
  then show ?case by simp
next
  case (Cons x ins)
  show ?case
  proof (cases x)
    case StopCalled
    with Cons.IH[of "stop self"] show ?thesis by simp
  next
    case (WatchEvent ty obj)
    obtain r self' where oe: "on_event self obj = (r, self')" by (cases "on_event self obj")
    then have rq: "filter is_create (requests (api self')) = filter is_create (requests (api self))"
      using on_event_requests[of self obj] by simp
    with Cons.IH[of self'] oe WatchEvent show ?thesis
      by (cases r) simp_all
  next
    case StreamEnds
    with Cons.IH[of self] show ?thesis by simp
  next
    case (StreamRaises e)
    then show ?thesis by simp
  qed
qed

lemma watch_loop_no_create:
  "filter is_create (requests (api (snd (watch_loop self ins))))
     = filter is_create (requests (api self))"
  by (simp add: watch_stream_no_create)


subsection \<open>The log stream\<close>

lemma deep_line_length: "length deep_line = 2000"
  by (simp add: deep_line_def)

lemma ex_loads_values:
  "ex_loads ''{}'' = Inr (JObj [])"
  "ex_loads ''not json'' = Inl ValueError"
  "ex_loads deep_line = Inl RecursionError"
proof -
  have other: "s \<noteq> deep_line" if "length s \<noteq> 2000" for s
    using that deep_line_length by auto
  have "''{}'' \<noteq> deep_line" "''null'' \<noteq> deep_line" "''not json'' \<noteq> deep_line"
    by (rule other, simp)+
  then show "ex_loads ''{}'' = Inr (JObj [])" "ex_loads ''not json'' = Inl ValueError"
    "ex_loads deep_line = Inl RecursionError"
    by (auto simp: ex_loads_def)
qed

lemma ex_decode_deep: "ex_decode deep_line = Inr deep_line"
  by (auto simp: ex_decode_def deep_line_def list_all_iff)


lemma stream_logs_stopped_q:
  "stop_event self \<Longrightarrow> q (snd (stream_logs decode loads dumps self lins)) = q self"
proof (induction lins arbitrary: self)
  case Nil
  then show ?case by simp
next
  case (Cons x lins)
  show ?case
  proof (cases x)
    case LogStopCalled
    with Cons.IH[of "stop self"] show ?thesis by simp
  next
    case (LogLine bytes)
    with Cons.prems show ?thesis by simp
  next
    case (LogRaises e)
    then show ?thesis by simp
  qed
qed

lemma stream_logs_q_grows:
  "\<exists>more. q (snd (stream_logs decode loads dumps self lins)) = q self @ more"
proof (induction lins arbitrary: self)
  case Nil
  then show ?case by simp
next
  case (Cons x lins)
  show ?case
  proof (cases x)
    case LogStopCalled
    with Cons.IH[of "stop self"] show ?thesis by simp
  next
    case (LogLine bytes)
    show ?thesis
    proof (cases "stop_event self")
      case True
      with LogLine show ?thesis by simp
    next
      case False
      show ?thesis
      proof (cases "decode bytes")
        case (Inl e)
        with LogLine False show ?thesis by simp
      next
        case line: (Inr line)
        show ?thesis
        proof (cases "loads line")
          case (Inr v)
          with Cons.IH[of "progress self LOG_MESSAGE (Line line)"] LogLine False line
          show ?thesis by auto
        next
          case (Inl e)
          with Cons.IH[of "progress self LOG_MESSAGE
                 (Line (dumps (JObj [(''phase'', JStr ''unknown''), (''message'', JStr line)])))"]
            LogLine False line
          show ?thesis by (cases e) auto
        qed
      qed
    qed
  next
    case (LogRaises e)
    then show ?thesis by simp
  qed
qed

lemma stream_logs_lines:
  assumes "\<not> stop_event self" and "map decode bs = map Inr ls"
    and "\<forall>l\<in>set ls. loads l = Inl ValueError \<or> (\<exists>v. loads l = Inr v)"
  shows "stream_logs decode loads dumps self (map LogLine bs @ rest) =
           stream_logs decode loads dumps
             (self\<lparr>q := q self @
                map (\<lambda>l. ProgressEvent LOG_MESSAGE
                      (Line (case loads l of
                               Inr v \<Rightarrow> l
                             | Inl e \<Rightarrow> dumps (JObj [(''phase'', JStr ''unknown''),
                                                     (''message'', JStr l)])))) ls\<rparr>)
             rest"
  using assms
proof (induction bs arbitrary: ls self)
  case Nil
  then show ?case by simp
next
  case (Cons b bs)
  from Cons.prems(2) obtain l ls' where ls: "ls = l # ls'" and dl: "decode b = Inr l"
    and rest: "map decode bs = map Inr ls'"
    by (cases ls) auto
  let ?ev = "ProgressEvent LOG_MESSAGE
               (Line (case loads l of
                        Inr v \<Rightarrow> l
                      | Inl e \<Rightarrow> dumps (JObj [(''phase'', JStr ''unknown''),
                                              (''message'', JStr l)])))"
  let ?self1 = "self\<lparr>q := q self @ [?ev]\<rparr>"
  from Cons.prems(3) ls have ok: "loads l = Inl ValueError \<or> (\<exists>v. loads l = Inr v)"
    and oks: "\<forall>l\<in>set ls'. loads l = Inl ValueError \<or> (\<exists>v. loads l = Inr v)"
    by simp_all
  have step: "stream_logs decode loads dumps self (map LogLine (b # bs) @ rest) =
                stream_logs decode loads dumps ?self1 (map LogLine bs @ rest)"
    using Cons.prems(1) dl ok by (auto simp: progress_def)
  have ns: "\<not> stop_event ?self1" using Cons.prems(1) by simp
  from Cons.IH[OF ns rest oks] step ls show ?case by simp
qed

subsection \<open>The command line and the affinity\<close>

text \<open>
  The flags \<^verbatim>\<open>--push\<close> and \<^verbatim>\<open>--build-memory-limit\<close> are governed by \<^verbatim>\<open>push_secret\<close>
  and \<^verbatim>\<open>memory_limit\<close> alone, as long as no passthrough value (appendix, extra
  arguments, repository URL) spells a flag itself.
\<close>

lemma str_nat_digits: "set (str_nat n) \<subseteq> set ''0123456789''"
proof (induction n rule: str_nat.induct)
  case (1 n)
  show ?case
  proof (cases "n < 10")
    case True
    then have "''0123456789'' ! n \<in> set ''0123456789''" by (intro nth_mem) simp
    with True show ?thesis by (subst str_nat.simps) simp
  next
    case False
    have "''0123456789'' ! (n mod 10) \<in> set ''0123456789''" by (intro nth_mem) simp
    with False 1 show ?thesis by (subst str_nat.simps) simp
  qed
qed

lemma str_int_not_flag:
  "str_int i \<noteq> ''--push''" "str_int i \<noteq> ''--build-memory-limit''"
proof -
  have d: "CHR ''-'' \<notin> set (str_nat n)" for n
    using str_nat_digits[of n] by auto
  have "str_int i \<noteq> CHR ''-'' # CHR ''-'' # rest" for rest
  proof
    assume a: "str_int i = CHR ''-'' # CHR ''-'' # rest"
    show False
    proof (cases "i < 0")
      case True
      with a have "str_nat (nat (- i)) = CHR ''-'' # rest" by (simp add: str_int_def)
      with d[of "nat (- i)"] show False by simp
    next
      case False
      with a have "str_nat (nat i) = CHR ''-'' # CHR ''-'' # rest" by (simp add: str_int_def)
      with d[of "nat i"] show False by simp
    qed
  qed
  then show "str_int i \<noteq> ''--push''" "str_int i \<noteq> ''--build-memory-limit''"
    by simp_all
qed

lemma get_cmd_flags:
  assumes "appendix self \<notin> {''--push'', ''--build-memory-limit''}"
    and "''--push'' \<notin> set (repo2docker_extra_args self)"
    and "''--build-memory-limit'' \<notin> set (repo2docker_extra_args self)"
    and "repo_url self \<notin> {''--push'', ''--build-memory-limit''}"
  shows "(''--push'' \<in> set (get_cmd self) \<longleftrightarrow> push_secret self \<noteq> [])
         \<and> (''--build-memory-limit'' \<in> set (get_cmd self) \<longleftrightarrow> memory_limit self \<noteq> 0)"
  using assms str_int_not_flag[of "memory_limit self"]
  by (auto simp: get_cmd_def get_r2d_cmd_options_def)

text \<open>
  Where \<^verbatim>\<open>get_affinity\<close> returns: without sticky builds the anti-affinity term, with
  sticky builds and at least one listed pod the node-affinity term for the top-ranked node.
\<close>

lemma get_affinity_not_sticky:
  assumes "\<not> sticky_builds self" and "list_reply (api self) = Inr body"
  shows "fst (get_affinity score self) =
           Inr (PodAntiAffinity 100 ''kubernetes.io/hostname'' (component_label self))"
  using assms by (simp add: get_affinity_def list_namespaced_pod_json_def Let_def)

lemma node_names_of_length:
  "node_names_of pods = Inr ns \<Longrightarrow> length ns = length pods"
  by (induction pods arbitrary: ns) (auto split: sum.splits)

lemma rendezvous_rank_set:
  "set (rendezvous_rank score buckets key) = set buckets"
  "length (rendezvous_rank score buckets key) = length buckets"
  by (simp_all add: rendezvous_rank_def)

lemma get_affinity_sticky:
  assumes "sticky_builds self" and "list_reply (api self) = Inr (JObj kvs)"
    and "map_of kvs ''items'' = Some (JArr pods)" and "pods \<noteq> []"
    and "node_names_of pods = Inr ns"
  shows "fst (get_affinity score self) =
           Inr (NodeAffinity 100 [hd (rendezvous_rank score ns (repo_url self))])"
proof -
  from assms(4,5) node_names_of_length have "ns \<noteq> []" by fastforce
  then have "rendezvous_rank score ns (repo_url self) \<noteq> []"
    using rendezvous_rank_set(2)[of score ns "repo_url self"] by auto
  then obtain b bs where "rendezvous_rank score ns (repo_url self) = b # bs"
    by (cases "rendezvous_rank score ns (repo_url self)") auto
  with assms show ?thesis
    by (auto simp: get_affinity_def list_namespaced_pod_json_def Let_def)
qed

section \<open>The claims\<close>

subsection \<open>C1: terminal status events per submission\<close>

text \<open>
  Claim C1: every invocation of \<^verbatim>\<open>submit()\<close> puts at most one terminal status event
  (BUILT or FAILED) on the progress queue, also when a phase-Failed event is followed by
  the deletion event of the same pod. The code does not keep this: run on a pod that is
  created, reported in phase Failed and then reported deleted, \<^verbatim>\<open>submit()\<close> emits FAILED
  when it sees the phase and FAILED again when it sees the deletion, two terminal events,
  and returns.
\<close>

theorem submit_failed_twice:
  "submit ex_score ex_urlparse_path ex_json_dumps (ex_executor (ex_kube ok_then_not_found []))
     [WatchEvent ''MODIFIED'' (pod_in_phase ''Failed''),
      WatchEvent ''DELETED'' (pod_in_phase ''Failed'')]
   = (Returned,
      (ex_executor (ex_kube ok_then_not_found []))
        \<lparr>api := (ex_kube ok_then_not_found [])\<lparr>requests :=
            [ListPods ''default'' ''component=image-builder,app=binder'',
             CreatePod ''default'' ''build-x''
               (get_cmd (ex_executor (ex_kube ok_then_not_found [])))
               (PodAntiAffinity 100 ''kubernetes.io/hostname'' ''binderhub-build''),
             DeletePod ''build-x'' ''default'' 0]\<rparr>,
         q := [ProgressEvent BUILD_STATUS_CHANGE (Status FAILED),
               ProgressEvent BUILD_STATUS_CHANGE (Status FAILED)],
         pod := Observed (pod_in_phase ''Failed'')\<rparr>)
   \<and> length (filter terminal (q (snd (submit ex_score ex_urlparse_path ex_json_dumps (ex_executor (ex_kube ok_then_not_found []))
        [WatchEvent ''MODIFIED'' (pod_in_phase ''Failed''),
         WatchEvent ''DELETED'' (pod_in_phase ''Failed'')])))) = 2"
  by (simp add: submit_def build_pod_def get_builder_volumes_def build_env_def
      pod_manifest_def ex_urlparse_path_def get_affinity_def list_namespaced_pod_json_def
      create_namespaced_pod_def ex_executor_def ex_kube_def pod_in_phase_def
      on_event_def cleanup_def delete_namespaced_pod_def progress_def
      ok_then_not_found_def get_cmd_def get_r2d_cmd_options_def Let_def)

subsection \<open>C2: the deletion event\<close>

text \<open>
  Claim C2: whenever the watch loop receives a deletion event for the watched pod (that
  is, while the executor is still watching after the events \<open>pre\<close>, whatever they were
  and whether or not cancellation was set meanwhile), it emits terminal BUILT if the phase
  reported with the deletion is Succeeded and terminal FAILED for any other phase, and
  returns: whatever the cluster delivers afterwards (\<open>post\<close>) is not read, nothing else
  is emitted and no request is sent.
\<close>

theorem deletion_event_ends_watch:
  assumes "watch_loop self pre = (Watching, self')"
  shows "watch_loop self (pre @ WatchEvent ''DELETED'' obj # post) =
           (Returned,
            progress self' BUILD_STATUS_CHANGE
              (Status (if status_phase obj = ''Succeeded'' then BUILT else FAILED)))"
  using watch_loop_append[OF assms, of "WatchEvent ''DELETED'' obj # post"] by simp

text \<open>An instance: a pod seen Pending, then Succeeded after a re-subscription, then deleted.\<close>

theorem deletion_event_ends_watch_witness:
  "watch_loop (ex_executor (ex_kube ok_then_not_found []))
      [WatchEvent ''ADDED'' (pod_in_phase ''Pending''), StreamEnds,
       WatchEvent ''MODIFIED'' (pod_in_phase ''Succeeded'')]
     = (Watching,
        (ex_executor (ex_kube ok_then_not_found []))
          \<lparr>api := (ex_kube ok_then_not_found [])
                    \<lparr>requests := [DeletePod ''build-x'' ''default'' 0]\<rparr>,
           q := [ProgressEvent BUILD_STATUS_CHANGE (Status PENDING)],
           pod := Observed (pod_in_phase ''Succeeded'')\<rparr>)
   \<and> watch_loop (ex_executor (ex_kube ok_then_not_found []))
      ([WatchEvent ''ADDED'' (pod_in_phase ''Pending''), StreamEnds,
        WatchEvent ''MODIFIED'' (pod_in_phase ''Succeeded'')]
       @ WatchEvent ''DELETED'' (pod_in_phase ''Succeeded'')
       # [WatchEvent ''MODIFIED'' (pod_in_phase ''Running'')])
     = (Returned,
        (ex_executor (ex_kube ok_then_not_found []))
          \<lparr>api := (ex_kube ok_then_not_found [])
                    \<lparr>requests := [DeletePod ''build-x'' ''default'' 0]\<rparr>,
           q := [ProgressEvent BUILD_STATUS_CHANGE (Status PENDING),
                 ProgressEvent BUILD_STATUS_CHANGE (Status BUILT)],
           pod := Observed (pod_in_phase ''Succeeded'')\<rparr>)"
proof -
  have h: "watch_loop (ex_executor (ex_kube ok_then_not_found []))
      [WatchEvent ''ADDED'' (pod_in_phase ''Pending''), StreamEnds,
       WatchEvent ''MODIFIED'' (pod_in_phase ''Succeeded'')]
     = (Watching,
        (ex_executor (ex_kube ok_then_not_found []))
          \<lparr>api := (ex_kube ok_then_not_found [])
                    \<lparr>requests := [DeletePod ''build-x'' ''default'' 0]\<rparr>,
           q := [ProgressEvent BUILD_STATUS_CHANGE (Status PENDING)],
           pod := Observed (pod_in_phase ''Succeeded'')\<rparr>)"
    by (simp add: ex_executor_def ex_kube_def on_event_def cleanup_def
        delete_namespaced_pod_def ok_then_not_found_def progress_def pod_in_phase_def Let_def)
  note deletion_event_ends_watch [OF h, of "pod_in_phase ''Succeeded''"
      "[WatchEvent ''MODIFIED'' (pod_in_phase ''Running'')]"]
  also have "(Returned,
      progress ((ex_executor (ex_kube ok_then_not_found []))
          \<lparr>api := (ex_kube ok_then_not_found [])
                    \<lparr>requests := [DeletePod ''build-x'' ''default'' 0]\<rparr>,
           q := [ProgressEvent BUILD_STATUS_CHANGE (Status PENDING)],
           pod := Observed (pod_in_phase ''Succeeded'')\<rparr>)
        BUILD_STATUS_CHANGE
        (Status (if status_phase (pod_in_phase ''Succeeded'') = ''Succeeded''
                 then BUILT else FAILED)))
     = (Returned,
        (ex_executor (ex_kube ok_then_not_found []))
          \<lparr>api := (ex_kube ok_then_not_found [])
                    \<lparr>requests := [DeletePod ''build-x'' ''default'' 0]\<rparr>,
           q := [ProgressEvent BUILD_STATUS_CHANGE (Status PENDING),
                 ProgressEvent BUILD_STATUS_CHANGE (Status BUILT)],
           pod := Observed (pod_in_phase ''Succeeded'')\<rparr>)"
    by (simp add: progress_def pod_in_phase_def ex_executor_def)
  finally show ?thesis using h by blast
qed

subsection \<open>C3: pod creation\<close>

text \<open>
  Claim C3, as the code has it: \<^verbatim>\<open>submit()\<close> never sends more than one create request,
  and once the pod manifest is built (the volumes, the environment and \<^verbatim>\<open>get_affinity\<close>
  have not raised) it sends exactly one, whatever the cluster answers and delivers. If
  the answer is success or a conflict (HTTP 409) the executor goes on to the watch loop;
  any other exception of the create call is the outcome of \<^verbatim>\<open>submit()\<close>, with no event
  emitted and nothing of the watch input read.
\<close>

theorem submit_creates_pod_once:
  "length (filter is_create (requests (api (snd (submit score urlparse_path json_dumps self ins)))))
     \<le> Suc (length (filter is_create (requests (api self))))
   \<and> (\<forall>manifest self1.
         build_pod score urlparse_path json_dumps self = (Inr manifest, self1) \<longrightarrow>
         length (filter is_create
                   (requests (api (snd (submit score urlparse_path json_dumps self ins)))))
           = Suc (length (filter is_create (requests (api self))))
         \<and> (create_reply (api self) = Inr () \<or> create_reply (api self) = Inl (ApiException 409)
              \<longrightarrow> submit score urlparse_path json_dumps self ins =
                    watch_loop
                      (self1\<lparr>pod := Manifest manifest,
                             api := (api self1)\<lparr>requests := requests (api self1) @
                                [CreatePod (namespace self) (name self) (get_cmd self)
                                   (manifest_affinity manifest)]\<rparr>\<rparr>)
                      ins)
         \<and> (\<forall>e. create_reply (api self) = Inl e \<and> e \<noteq> ApiException 409
              \<longrightarrow> submit score urlparse_path json_dumps self ins =
                    (Raised e,
                     self1\<lparr>pod := Manifest manifest,
                            api := (api self1)\<lparr>requests := requests (api self1) @
                               [CreatePod (namespace self) (name self) (get_cmd self)
                                  (manifest_affinity manifest)]\<rparr>\<rparr>)))"
proof -
  have built: "length (filter is_create
                   (requests (api (snd (submit score urlparse_path json_dumps self ins)))))
           = Suc (length (filter is_create (requests (api self))))
         \<and> (create_reply (api self) = Inr () \<or> create_reply (api self) = Inl (ApiException 409)
              \<longrightarrow> submit score urlparse_path json_dumps self ins =
                    watch_loop
                      (self1\<lparr>pod := Manifest manifest,
                             api := (api self1)\<lparr>requests := requests (api self1) @
                                [CreatePod (namespace self) (name self) (get_cmd self)
                                   (manifest_affinity manifest)]\<rparr>\<rparr>)
                      ins)
         \<and> (\<forall>e. create_reply (api self) = Inl e \<and> e \<noteq> ApiException 409
              \<longrightarrow> submit score urlparse_path json_dumps self ins =
                    (Raised e,
                     self1\<lparr>pod := Manifest manifest,
                            api := (api self1)\<lparr>requests := requests (api self1) @
                               [CreatePod (namespace self) (name self) (get_cmd self)
                                  (manifest_affinity manifest)]\<rparr>\<rparr>))"
    if bp: "build_pod score urlparse_path json_dumps self = (Inr manifest, self1)"
    for manifest self1
  proof -
    from build_pod_built[OF bp]
    have s1: "self1 = self\<lparr>api := (api self)\<lparr>requests := requests (api self) @
          [ListPods (namespace self) ''component=image-builder,app=binder'']\<rparr>\<rparr>"
      and nm: "manifest_name manifest = name self"
      and args: "container_args manifest = get_cmd self"
      by simp_all
    let ?self3 = "self1\<lparr>pod := Manifest manifest,
                          api := (api self1)\<lparr>requests := requests (api self1) @
                                [CreatePod (namespace self) (name self) (get_cmd self)
                                   (manifest_affinity manifest)]\<rparr>\<rparr>"
    have created: "length (filter is_create (requests (api ?self3)))
                     = Suc (length (filter is_create (requests (api self))))"
      by (simp add: s1)
    have run: "submit score urlparse_path json_dumps self ins =
       (case create_reply (api self) of
          Inr u \<Rightarrow> watch_loop ?self3 ins
        | Inl e \<Rightarrow> if e = ApiException 409 then watch_loop ?self3 ins else (Raised e, ?self3))"
      using bp nm args
      by (auto simp: submit_def create_namespaced_pod_def Let_def s1 split: sum.splits exn.splits)
    have count: "length (filter is_create
                   (requests (api (snd (submit score urlparse_path json_dumps self ins)))))
             = Suc (length (filter is_create (requests (api self))))"
    proof (cases "create_reply (api self)")
      case (Inr u)
      with run have "submit score urlparse_path json_dumps self ins = watch_loop ?self3 ins"
        by simp
      then show ?thesis using watch_loop_no_create[of ?self3 ins] created by simp
    next
      case (Inl e)
      show ?thesis
      proof (cases "e = ApiException 409")
        case True
        with run Inl
        have "submit score urlparse_path json_dumps self ins = watch_loop ?self3 ins" by simp
        then show ?thesis using watch_loop_no_create[of ?self3 ins] created by simp
      next
        case False
        with run Inl
        have "submit score urlparse_path json_dumps self ins = (Raised e, ?self3)" by simp
        then show ?thesis using created by simp
      qed
    qed
    from run have cont: "create_reply (api self) = Inr ()
                           \<or> create_reply (api self) = Inl (ApiException 409)
                \<longrightarrow> submit score urlparse_path json_dumps self ins = watch_loop ?self3 ins"
      by auto
    from run have abort: "\<forall>e. create_reply (api self) = Inl e \<and> e \<noteq> ApiException 409
                \<longrightarrow> submit score urlparse_path json_dumps self ins = (Raised e, ?self3)"
      by auto
    from count cont abort show ?thesis by blast
  qed
  have atmost: "length (filter is_create
                   (requests (api (snd (submit score urlparse_path json_dumps self ins)))))
     \<le> Suc (length (filter is_create (requests (api self))))"
  proof -
    obtain r self1 where bp: "build_pod score urlparse_path json_dumps self = (r, self1)"
      by (cases "build_pod score urlparse_path json_dumps self")
    show ?thesis
    proof (cases r)
      case (Inl e)
      with bp build_pod_raises[of score urlparse_path json_dumps self e self1] show ?thesis
        by (auto simp: submit_def)
    next
      case (Inr manifest)
      with bp built[of manifest self1] show ?thesis by simp
    qed
  qed
  from atmost built show ?thesis by blast
qed

text \<open>An instance: the create call answers 409 and the existing pod is watched.\<close>

theorem submit_creates_pod_once_witness:
  "build_pod ex_score ex_urlparse_path ex_json_dumps (ex_executor conflict_kube) =
     (Inr (pod_manifest (ex_executor conflict_kube)
             [HostPathVolume ''docker-socket'' ''/var/run/docker.sock'' ''Socket'',
              SecretVolume ''docker-config'' ''binder-build-docker-config'']
             [VolumeMount ''/var/run/docker.sock'' ''docker-socket'' None,
              VolumeMount ''/root/.docker/config.json'' ''docker-config'' (Some ''config.json'')]
             []
             (PodAntiAffinity 100 ''kubernetes.io/hostname'' ''binderhub-build'')),
      (ex_executor conflict_kube)\<lparr>api := conflict_kube\<lparr>requests :=
        [ListPods ''default'' ''component=image-builder,app=binder'']\<rparr>\<rparr>)
   \<and> create_reply (api (ex_executor conflict_kube)) = Inl (ApiException 409)
   \<and> length (filter is_create (requests (api (snd
        (submit ex_score ex_urlparse_path ex_json_dumps (ex_executor conflict_kube)
           [WatchEvent ''MODIFIED'' (pod_in_phase ''Running'')]))))) = 1
   \<and> submit ex_score ex_urlparse_path ex_json_dumps (ex_executor conflict_kube)
        [WatchEvent ''MODIFIED'' (pod_in_phase ''Running'')]
      = (Watching,
         (ex_executor conflict_kube)
           \<lparr>api := conflict_kube\<lparr>requests :=
              [ListPods ''default'' ''component=image-builder,app=binder'',
               CreatePod ''default'' ''build-x'' (get_cmd (ex_executor conflict_kube))
                 (PodAntiAffinity 100 ''kubernetes.io/hostname'' ''binderhub-build'')]\<rparr>,
            q := [ProgressEvent BUILD_STATUS_CHANGE (Status RUNNING)],
            pod := Observed (pod_in_phase ''Running'')\<rparr>)"
proof -
  let ?m = "pod_manifest (ex_executor conflict_kube)
             [HostPathVolume ''docker-socket'' ''/var/run/docker.sock'' ''Socket'',
              SecretVolume ''docker-config'' ''binder-build-docker-config'']
             [VolumeMount ''/var/run/docker.sock'' ''docker-socket'' None,
              VolumeMount ''/root/.docker/config.json'' ''docker-config'' (Some ''config.json'')]
             []
             (PodAntiAffinity 100 ''kubernetes.io/hostname'' ''binderhub-build'')"
  let ?s1 = "(ex_executor conflict_kube)\<lparr>api := conflict_kube\<lparr>requests :=
        [ListPods ''default'' ''component=image-builder,app=binder'']\<rparr>\<rparr>"
  have h: "build_pod ex_score ex_urlparse_path ex_json_dumps (ex_executor conflict_kube)
             = (Inr ?m, ?s1)"
    by (simp add: build_pod_def get_builder_volumes_def build_env_def ex_urlparse_path_def
        pod_manifest_def get_affinity_def list_namespaced_pod_json_def ex_executor_def
        conflict_kube_def ex_kube_def Let_def)
  have c: "create_reply (api (ex_executor conflict_kube)) = Inl (ApiException 409)"
    by (simp add: ex_executor_def conflict_kube_def)
  note t = submit_creates_pod_once [of ex_score ex_urlparse_path ex_json_dumps
      "ex_executor conflict_kube" "[WatchEvent ''MODIFIED'' (pod_in_phase ''Running'')]"]
  from t h have n: "length (filter is_create (requests (api (snd
        (submit ex_score ex_urlparse_path ex_json_dumps (ex_executor conflict_kube)
           [WatchEvent ''MODIFIED'' (pod_in_phase ''Running'')])))))
      = Suc (length (filter is_create (requests (api (ex_executor conflict_kube)))))"
    by blast
  have n0: "length (filter is_create (requests (api (ex_executor conflict_kube)))) = 0"
    by (simp add: ex_executor_def conflict_kube_def ex_kube_def)
  from t h c have "submit ex_score ex_urlparse_path ex_json_dumps (ex_executor conflict_kube)
        [WatchEvent ''MODIFIED'' (pod_in_phase ''Running'')]
      = watch_loop
          (?s1\<lparr>pod := Manifest ?m,
                api := (api ?s1)\<lparr>requests := requests (api ?s1) @
                    [CreatePod (namespace (ex_executor conflict_kube))
                       (name (ex_executor conflict_kube)) (get_cmd (ex_executor conflict_kube))
                       (manifest_affinity ?m)]\<rparr>\<rparr>)
          [WatchEvent ''MODIFIED'' (pod_in_phase ''Running'')]"
    by blast
  also have "\<dots> = (Watching,
         (ex_executor conflict_kube)
           \<lparr>api := conflict_kube\<lparr>requests :=
              [ListPods ''default'' ''component=image-builder,app=binder'',
               CreatePod ''default'' ''build-x'' (get_cmd (ex_executor conflict_kube))
                 (PodAntiAffinity 100 ''kubernetes.io/hostname'' ''binderhub-build'')]\<rparr>,
            q := [ProgressEvent BUILD_STATUS_CHANGE (Status RUNNING)],
            pod := Observed (pod_in_phase ''Running'')\<rparr>)"
    by (simp add: ex_executor_def on_event_def progress_def pod_in_phase_def pod_manifest_def
        Let_def)
  finally show ?thesis using h c n n0 by simp
qed

text \<open>
  The claim as stated fails: when the listing of image-builder pods raises (HTTP 403),
  and likewise when sticky builds meet an empty listing, \<^verbatim>\<open>submit()\<close> raises while it
  builds the manifest and sends no create request at all.
\<close>

theorem submit_no_create_counterexample:
  "submit ex_score ex_urlparse_path ex_json_dumps (ex_executor unlistable_kube)
       [WatchEvent ''ADDED'' (pod_in_phase ''Pending'')]
     = (Raised (ApiException 403),
        (ex_executor unlistable_kube)\<lparr>api := unlistable_kube\<lparr>requests :=
           [ListPods ''default'' ''component=image-builder,app=binder'']\<rparr>\<rparr>)
   \<and> fst (submit ex_score ex_urlparse_path ex_json_dumps sticky_executor
            [WatchEvent ''ADDED'' (pod_in_phase ''Pending'')]) = Raised IndexError
   \<and> requests (api (snd (submit ex_score ex_urlparse_path ex_json_dumps sticky_executor
            [WatchEvent ''ADDED'' (pod_in_phase ''Pending'')])))
       = [ListPods ''default'' ''component=image-builder,app=binder'']"
  by (simp add: submit_def build_pod_def get_builder_volumes_def build_env_def
      ex_urlparse_path_def get_affinity_def list_namespaced_pod_json_def rendezvous_rank_def
      ex_executor_def sticky_executor_def unlistable_kube_def ex_kube_def empty_pod_list_def
      Let_def)

subsection \<open>C4: cleanup of the build pod\<close>

text \<open>
  Claim C4: \<^verbatim>\<open>cleanup()\<close> sends one delete request for the pod, with grace period zero;
  it returns normally when the call succeeds or raises not-found (HTTP 404) and raises
  whatever else the call raises; hence a second \<^verbatim>\<open>cleanup()\<close> in sequence, to which the
  cluster answers not-found because the pod is already gone, does not raise.
\<close>

theorem cleanup_swallows_not_found:
  "requests (api (snd (cleanup self))) =
     requests (api self) @ [DeletePod (name self) (namespace self) 0]
   \<and> fst (cleanup self) =
       (case delete_reply (api self) (length (filter is_delete (requests (api self)))) of
          Inr u \<Rightarrow> Inr ()
        | Inl e \<Rightarrow> if e = ApiException 404 then Inr () else Inl e)
   \<and> (delete_reply (api self) (Suc (length (filter is_delete (requests (api self)))))
         = Inl (ApiException 404)
       \<longrightarrow> fst (cleanup (snd (cleanup self))) = Inr ())"
  by (auto simp: cleanup_def delete_namespaced_pod_def Let_def split: sum.splits exn.splits prod.splits)

text \<open>An instance: the first delete succeeds, the second finds the pod gone.\<close>

theorem cleanup_swallows_not_found_witness:
  "delete_reply (api (ex_executor (ex_kube ok_then_not_found [])))
       (Suc (length (filter is_delete (requests (api (ex_executor (ex_kube ok_then_not_found [])))))))
     = Inl (ApiException 404)
   \<and> fst (cleanup (ex_executor (ex_kube ok_then_not_found []))) = Inr ()
   \<and> fst (cleanup (snd (cleanup (ex_executor (ex_kube ok_then_not_found []))))) = Inr ()
   \<and> requests (api (snd (cleanup (snd (cleanup (ex_executor (ex_kube ok_then_not_found []))))))) =
       [DeletePod ''build-x'' ''default'' 0, DeletePod ''build-x'' ''default'' 0]"
proof -
  have h: "delete_reply (api (ex_executor (ex_kube ok_then_not_found [])))
       (Suc (length (filter is_delete (requests (api (ex_executor (ex_kube ok_then_not_found [])))))))
     = Inl (ApiException 404)"
    by (simp add: ex_executor_def ex_kube_def ok_then_not_found_def)
  have "fst (cleanup (snd (cleanup (ex_executor (ex_kube ok_then_not_found []))))) = Inr ()"
    using cleanup_swallows_not_found [of "ex_executor (ex_kube ok_then_not_found [])"] h
    by blast
  moreover have "fst (cleanup (ex_executor (ex_kube ok_then_not_found []))) = Inr ()"
    by (simp add: cleanup_def delete_namespaced_pod_def ex_executor_def ex_kube_def
        ok_then_not_found_def)
  moreover have "requests (api (snd (cleanup (snd (cleanup (ex_executor (ex_kube ok_then_not_found []))))))) =
       [DeletePod ''build-x'' ''default'' 0, DeletePod ''build-x'' ''default'' 0]"
    by (simp add: ex_executor_def ex_kube_def)
  ultimately show ?thesis using h by simp
qed

subsection \<open>C5: cancellation\<close>




subsection \<open>C6: log lines\<close>

text \<open>
  Claim C6, as the code has it: as long as cancellation is not set, every line read
  from the log stream that decodes as UTF-8 and that \<^verbatim>\<open>json.loads\<close> either parses or
  rejects with \<^verbatim>\<open>ValueError\<close> is forwarded as a LOG\_MESSAGE event, in order: as it is
  when it parses as JSON, and wrapped as the JSON object with members \<^verbatim>\<open>phase\<close> =
  \<^verbatim>\<open>unknown\<close> and \<^verbatim>\<open>message\<close> = the line when parsing raises \<^verbatim>\<open>ValueError\<close>; when
  the stream ends, \<^verbatim>\<open>stream_logs()\<close> returns. Once cancellation is set, no further line
  is forwarded. Whatever follows such lines (\<open>rest\<close>), they have been forwarded: the
  queue only grows.
\<close>

theorem stream_logs_forwards_lines:
  assumes "\<not> stop_event self" and "map decode bs = map Inr ls"
    and "\<forall>l\<in>set ls. loads l = Inl ValueError \<or> (\<exists>v. loads l = Inr v)"
  shows "stream_logs decode loads dumps self (map LogLine bs) =
           (Returned,
            self\<lparr>q := q self @
               map (\<lambda>l. ProgressEvent LOG_MESSAGE
                     (Line (case loads l of
                              Inr v \<Rightarrow> l
                            | Inl e \<Rightarrow> dumps (JObj [(''phase'', JStr ''unknown''),
                                                    (''message'', JStr l)])))) ls\<rparr>)
         \<and> q (snd (stream_logs decode loads dumps self (map LogLine bs @ LogStopCalled # rest))) =
             q self @
               map (\<lambda>l. ProgressEvent LOG_MESSAGE
                     (Line (case loads l of
                              Inr v \<Rightarrow> l
                            | Inl e \<Rightarrow> dumps (JObj [(''phase'', JStr ''unknown''),
                                                    (''message'', JStr l)])))) ls
         \<and> (\<exists>more. q (snd (stream_logs decode loads dumps self (map LogLine bs @ rest))) =
               q self @
                 map (\<lambda>l. ProgressEvent LOG_MESSAGE
                       (Line (case loads l of
                                Inr v \<Rightarrow> l
                              | Inl e \<Rightarrow> dumps (JObj [(''phase'', JStr ''unknown''),
                                                      (''message'', JStr l)])))) ls
                 @ more)"
proof -
  let ?fwd = "map (\<lambda>l. ProgressEvent LOG_MESSAGE
                     (Line (case loads l of
                              Inr v \<Rightarrow> l
                            | Inl e \<Rightarrow> dumps (JObj [(''phase'', JStr ''unknown''),
                                                    (''message'', JStr l)])))) ls"
  have a: "stream_logs decode loads dumps self (map LogLine bs) =
             (Returned, self\<lparr>q := q self @ ?fwd\<rparr>)"
    using stream_logs_lines[OF assms, of dumps "[]"] by simp
  have b: "q (snd (stream_logs decode loads dumps self (map LogLine bs @ LogStopCalled # rest))) =
             q self @ ?fwd"
    using stream_logs_lines[OF assms, of dumps "LogStopCalled # rest"]
    by (simp add: stream_logs_stopped_q)
  have c: "\<exists>more. q (snd (stream_logs decode loads dumps self (map LogLine bs @ rest))) =
             q self @ ?fwd @ more"
    using stream_logs_lines[OF assms, of dumps rest]
      stream_logs_q_grows[of decode loads dumps "self\<lparr>q := q self @ ?fwd\<rparr>" rest]
    by simp
  from a b c show ?thesis by blast
qed

text \<open>An instance: a JSON line and the line \<^verbatim>\<open>not json\<close>.\<close>

theorem stream_logs_forwards_lines_witness:
  "\<not> stop_event (ex_executor (ex_kube ok_then_not_found []))
   \<and> map ex_decode [''{}'', ''not json''] = map Inr [''{}'', ''not json'']
   \<and> ex_loads ''{}'' = Inr (JObj [])
   \<and> ex_loads ''not json'' = Inl ValueError
   \<and> stream_logs ex_decode ex_loads ex_dumps (ex_executor (ex_kube ok_then_not_found []))
        (map LogLine [''{}'', ''not json'']) =
       (Returned,
        (ex_executor (ex_kube ok_then_not_found []))
          \<lparr>q := [ProgressEvent LOG_MESSAGE (Line ''{}''),
                 ProgressEvent LOG_MESSAGE
                   (Line (ex_dumps (JObj [(''phase'', JStr ''unknown''),
                                          (''message'', JStr ''not json'')])))]\<rparr>)"
proof -
  have h1: "\<not> stop_event (ex_executor (ex_kube ok_then_not_found []))"
    by (simp add: ex_executor_def)
  have h2: "map ex_decode [''{}'', ''not json''] = map Inr [''{}'', ''not json'']"
    by (simp add: ex_decode_def)
  have h3: "\<forall>l\<in>set [''{}'', ''not json'']. ex_loads l = Inl ValueError \<or> (\<exists>v. ex_loads l = Inr v)"
    by (simp add: ex_loads_values)
  have "stream_logs ex_decode ex_loads ex_dumps (ex_executor (ex_kube ok_then_not_found []))
          (map LogLine [''{}'', ''not json'']) =
        (Returned,
         (ex_executor (ex_kube ok_then_not_found []))
           \<lparr>q := q (ex_executor (ex_kube ok_then_not_found [])) @
              map (\<lambda>l. ProgressEvent LOG_MESSAGE
                    (Line (case ex_loads l of
                             Inr v \<Rightarrow> l
                           | Inl e \<Rightarrow> ex_dumps (JObj [(''phase'', JStr ''unknown''),
                                                      (''message'', JStr l)]))))
                [''{}'', ''not json'']\<rparr>)"
    using stream_logs_forwards_lines [OF h1 h2 h3, of ex_dumps "[]"] by (rule conjunct1)
  also have "\<dots> =
       (Returned,
        (ex_executor (ex_kube ok_then_not_found []))
          \<lparr>q := [ProgressEvent LOG_MESSAGE (Line ''{}''),
                 ProgressEvent LOG_MESSAGE
                   (Line (ex_dumps (JObj [(''phase'', JStr ''unknown''),
                                          (''message'', JStr ''not json'')])))]\<rparr>)"
    by (simp add: ex_loads_values ex_executor_def)
  finally have "stream_logs ex_decode ex_loads ex_dumps (ex_executor (ex_kube ok_then_not_found []))
        (map LogLine [''{}'', ''not json'']) =
       (Returned,
        (ex_executor (ex_kube ok_then_not_found []))
          \<lparr>q := [ProgressEvent LOG_MESSAGE (Line ''{}''),
                 ProgressEvent LOG_MESSAGE
                   (Line (ex_dumps (JObj [(''phase'', JStr ''unknown''),
                                          (''message'', JStr ''not json'')])))]\<rparr>)" .
  moreover have "ex_loads ''{}'' = Inr (JObj [])" and "ex_loads ''not json'' = Inl ValueError"
    by (simp_all add: ex_loads_values)
  ultimately show ?thesis using h1 h2 by blast
qed

text \<open>
  The claim as stated fails: a line read after cancellation is set is dropped; a line
  that does not decode ends the streaming with an exception, the lines after it unread;
  and so does a line that decodes but on which \<^verbatim>\<open>json.loads\<close> raises something other
  than \<^verbatim>\<open>ValueError\<close> (\<^verbatim>\<open>RecursionError\<close> on a line nested 2000 deep), which only
  \<^verbatim>\<open>except ValueError\<close> would have caught.
\<close>

theorem stream_logs_drops_line_counterexample:
  "stream_logs ex_decode ex_loads ex_dumps (stop (ex_executor (ex_kube ok_then_not_found [])))
     [LogLine ''not json'']
     = (Returned, stop (ex_executor (ex_kube ok_then_not_found [])))
   \<and> q (stop (ex_executor (ex_kube ok_then_not_found []))) = []
   \<and> stream_logs ex_decode ex_loads ex_dumps (ex_executor (ex_kube ok_then_not_found []))
       [LogLine [CHR 0xFF], LogLine ''not json'']
     = (Raised UnicodeDecodeError, ex_executor (ex_kube ok_then_not_found []))
   \<and> ex_decode deep_line = Inr deep_line
   \<and> stream_logs ex_decode ex_loads ex_dumps (ex_executor (ex_kube ok_then_not_found []))
       [LogLine deep_line, LogLine ''not json'']
     = (Raised RecursionError, ex_executor (ex_kube ok_then_not_found []))
   \<and> q (ex_executor (ex_kube ok_then_not_found [])) = []"
proof -
  have "stream_logs ex_decode ex_loads ex_dumps (stop (ex_executor (ex_kube ok_then_not_found [])))
     [LogLine ''not json'']
     = (Returned, stop (ex_executor (ex_kube ok_then_not_found [])))"
    by (simp add: ex_executor_def stop_def)
  moreover have "q (stop (ex_executor (ex_kube ok_then_not_found []))) = []"
    and "q (ex_executor (ex_kube ok_then_not_found [])) = []"
    by (simp_all add: ex_executor_def stop_def)
  moreover have "stream_logs ex_decode ex_loads ex_dumps
       (ex_executor (ex_kube ok_then_not_found [])) [LogLine [CHR 0xFF], LogLine ''not json'']
     = (Raised UnicodeDecodeError, ex_executor (ex_kube ok_then_not_found []))"
    by (simp add: ex_decode_def ex_executor_def)
  moreover have "stream_logs ex_decode ex_loads ex_dumps
       (ex_executor (ex_kube ok_then_not_found [])) [LogLine deep_line, LogLine ''not json'']
     = (Raised RecursionError, ex_executor (ex_kube ok_then_not_found []))"
    by (simp add: ex_decode_deep ex_loads_values ex_executor_def)
  ultimately show ?thesis using ex_decode_deep by simp
qed

subsection \<open>C7: which pods a sweep deletes\<close>

text \<open>
  Claim C7, as the code has it: in a sweep that runs to completion, the delete requests
  sent are, in order, one for each listed pod whose phase is Failed, Succeeded or Evicted
  (whatever its age) or for which \<^verbatim>\<open>max_age\<close> is not zero, a start time is present and
  that start time is before now minus \<^verbatim>\<open>max_age\<close>; no other pod is deleted. In
  particular a Running pod younger than a positive \<^verbatim>\<open>max_age\<close> is not deleted.
\<close>

theorem cleaner_deletes_exactly:
  assumes "cleaner_cleanup c now = (Inr rep, s)" and "builds_reply (kube c) = Inr builds"
  shows "requests (sweep_kube s) =
           requests (kube c) @ [ListPods (cleaner_namespace c) ''component=binderhub-build'']
           @ map (\<lambda>b. DeletePod (metadata_name b) (cleaner_namespace c) 0)
               (filter (\<lambda>b. status_phase b \<in> {''Failed'', ''Succeeded'', ''Evicted''}
                          \<or> (max_age c \<noteq> 0
                              \<and> (\<exists>t. status_start_time b = Some t
                                      \<and> t < now - max_age c * 1000000)))
                  builds)"
proof -
  from cleaner_cleanup_completes[OF assms]
  have "sweep_builds (cleaner_namespace c) (max_age c) (now - max_age c * 1000000) builds
           \<lparr>sweep_kube = (kube c)\<lparr>requests := requests (kube c) @
                [ListPods (cleaner_namespace c) ''component=binderhub-build'']\<rparr>,
             deleted = 0, phases = (\<lambda>_. 0)\<rparr> = (Inr (), s)"
    by simp
  from sweep_builds_requests[OF this]
  have "requests (sweep_kube s) =
          requests (kube c) @ [ListPods (cleaner_namespace c) ''component=binderhub-build'']
          @ map (\<lambda>b. DeletePod (metadata_name b) (cleaner_namespace c) 0)
              (filter (delete_decision (max_age c) (now - max_age c * 1000000)) builds)"
    by simp
  moreover have "delete_decision (max_age c) (now - max_age c * 1000000) =
     (\<lambda>b. status_phase b \<in> {''Failed'', ''Succeeded'', ''Evicted''}
                          \<or> (max_age c \<noteq> 0
                              \<and> (\<exists>t. status_start_time b = Some t
                                      \<and> t < now - max_age c * 1000000)))"
    by (rule ext) (rule delete_decision_iff)
  ultimately show ?thesis by simp
qed

text \<open>
  An instance: four pods, of which the Succeeded one and the Running one older than four
  hours are deleted.
\<close>

theorem cleaner_deletes_exactly_witness:
  "fst (cleaner_cleanup ex_cleaner ex_now) = Inr (Some (2, 4))
   \<and> builds_reply (kube ex_cleaner) = Inr ex_builds
   \<and> requests (sweep_kube (snd (cleaner_cleanup ex_cleaner ex_now))) =
       [ListPods ''default'' ''component=binderhub-build'',
        DeletePod ''build-a'' ''default'' 0,
        DeletePod ''build-b'' ''default'' 0]"
proof -
  have run: "cleaner_cleanup ex_cleaner ex_now =
               (Inr (Some (2, 4)), snd (cleaner_cleanup ex_cleaner ex_now))"
    using ex_cleaner_run by (metis prod.collapse)
  have bs: "builds_reply (kube ex_cleaner) = Inr ex_builds"
    by (simp add: ex_cleaner_def ex_kube_def)
  have "requests (sweep_kube (snd (cleaner_cleanup ex_cleaner ex_now))) =
       [ListPods ''default'' ''component=binderhub-build'',
        DeletePod ''build-a'' ''default'' 0,
        DeletePod ''build-b'' ''default'' 0]"
    using cleaner_deletes_exactly [OF run bs]
    by (simp add: ex_cleaner_def ex_kube_def ex_builds_def ex_now_def)
  with ex_cleaner_run bs show ?thesis by simp
qed

text \<open>
  The claim as stated fails: with a negative \<^verbatim>\<open>max_age\<close> a Running pod that has just
  started is deleted, although no positive \<^verbatim>\<open>max_age\<close> is configured; and in a sweep
  whose first delete call raises (HTTP 500), a Running pod older than \<^verbatim>\<open>max_age\<close> that
  is listed later is not deleted.
\<close>

theorem cleaner_deletes_iff_counterexample:
  "DeletePod ''build-e'' ''default'' 0
     \<in> set (requests (sweep_kube (snd (cleaner_cleanup negative_age_cleaner ex_now))))
   \<and> fst (cleaner_cleanup negative_age_cleaner ex_now) = Inr (Some (1, 1))
   \<and> builds_reply (kube negative_age_cleaner) = Inr fresh_builds
   \<and> status_phase (hd fresh_builds) = ''Running''
   \<and> \<not> 0 < max_age negative_age_cleaner
   \<and> fst (cleaner_cleanup failing_cleaner ex_now) = Inl (ApiException 500)
   \<and> builds_reply (kube failing_cleaner) = Inr ex_builds
   \<and> status_phase (ex_builds ! 1) = ''Running''
   \<and> status_start_time (ex_builds ! 1) = Some (ex_now - 18000 * 1000000)
   \<and> max_age failing_cleaner = 14400
   \<and> DeletePod ''build-b'' ''default'' 0
        \<notin> set (requests (sweep_kube (snd (cleaner_cleanup failing_cleaner ex_now))))"
  by (simp add: cleaner_cleanup_def negative_age_cleaner_def failing_cleaner_def ex_kube_def
      fresh_builds_def ex_builds_def ex_now_def always_500_def
      not_found_then_ok_def list_namespaced_pod_def timedelta_seconds_def datetime_sub_def
      datetime_max_def delete_decision_def delete_namespaced_pod_def Let_def)

subsection \<open>C10: the deleted count of a sweep\<close>

text \<open>
  Claim C10: the counter \<^verbatim>\<open>deleted\<close> is incremented before each delete call, so it
  counts every delete request sent, whatever the call answers; in a sweep that runs to
  completion it equals the number of listed pods that matched a deletion condition, also
  when delete calls raised not-found, and this is the count reported (together with the
  number of listed pods, and only when it is not zero).
\<close>

theorem cleaner_deleted_count:
  assumes "cleaner_cleanup c now = (r, s)" and "builds_reply (kube c) = Inr builds"
  shows "length (filter is_delete (requests (sweep_kube s)))
           = length (filter is_delete (requests (kube c))) + deleted s
         \<and> (\<forall>rep. r = Inr rep \<longrightarrow>
               deleted s = length (filter (delete_decision (max_age c)
                                             (now - max_age c * 1000000)) builds)
               \<and> rep = (if deleted s = 0 then None else Some (deleted s, length builds)))"
proof -
  have counted: "length (filter is_delete (requests (sweep_kube s)))
           = length (filter is_delete (requests (kube c))) + deleted s"
  proof (cases "timedelta_seconds (max_age c)")
    case (Inl e)
    with assms show ?thesis
      by (auto simp: cleaner_cleanup_def list_namespaced_pod_def)
  next
    case d: (Inr d)
    show ?thesis
    proof (cases "datetime_sub now d")
      case (Inl e)
      with assms d show ?thesis
        by (auto simp: cleaner_cleanup_def list_namespaced_pod_def)
    next
      case (Inr cutoff)
      obtain r' s' where sw: "sweep_builds (cleaner_namespace c) (max_age c) cutoff builds
           \<lparr>sweep_kube = (kube c)\<lparr>requests := requests (kube c) @
                [ListPods (cleaner_namespace c) ''component=binderhub-build'']\<rparr>,
             deleted = 0, phases = (\<lambda>_. 0)\<rparr> = (r', s')"
        by (cases "sweep_builds (cleaner_namespace c) (max_age c) cutoff builds
           \<lparr>sweep_kube = (kube c)\<lparr>requests := requests (kube c) @
                [ListPods (cleaner_namespace c) ''component=binderhub-build'']\<rparr>,
             deleted = 0, phases = (\<lambda>_. 0)\<rparr>") auto
      with assms d Inr have "s = s'"
        by (auto simp: cleaner_cleanup_def list_namespaced_pod_def split: sum.splits)
      with sweep_builds_counter[OF sw] show ?thesis by simp
    qed
  qed
  have reported: "deleted s = length (filter (delete_decision (max_age c)
                                             (now - max_age c * 1000000)) builds)
               \<and> rep = (if deleted s = 0 then None else Some (deleted s, length builds))"
    if "r = Inr rep" for rep
  proof -
    from that assms have run: "cleaner_cleanup c now = (Inr rep, s)" by simp
    from cleaner_cleanup_completes[OF run assms(2)] sweep_builds_requests
    show ?thesis by fastforce
  qed
  from counted reported show ?thesis by blast
qed

text \<open>An instance: two pods match, the first delete call raises not-found, two are reported.\<close>

theorem cleaner_deleted_count_witness:
  "builds_reply (kube ex_cleaner) = Inr ex_builds
   \<and> delete_reply (kube ex_cleaner) 0 = Inl (ApiException 404)
   \<and> fst (cleaner_cleanup ex_cleaner ex_now) = Inr (Some (2, 4))
   \<and> deleted (snd (cleaner_cleanup ex_cleaner ex_now)) = 2
   \<and> length (filter (delete_decision (max_age ex_cleaner)
                       (ex_now - max_age ex_cleaner * 1000000)) ex_builds) = 2"
proof -
  have run: "cleaner_cleanup ex_cleaner ex_now =
               (Inr (Some (2, 4)), snd (cleaner_cleanup ex_cleaner ex_now))"
    using ex_cleaner_run by (metis prod.collapse)
  have bs: "builds_reply (kube ex_cleaner) = Inr ex_builds"
    by (simp add: ex_cleaner_def ex_kube_def)
  have nf: "delete_reply (kube ex_cleaner) 0 = Inl (ApiException 404)"
    by (simp add: ex_cleaner_def ex_kube_def not_found_then_ok_def)
  have "deleted (snd (cleaner_cleanup ex_cleaner ex_now))
          = length (filter (delete_decision (max_age ex_cleaner)
                       (ex_now - max_age ex_cleaner * 1000000)) ex_builds)"
    using cleaner_deleted_count [OF run bs] by simp
  with bs nf ex_cleaner_run show ?thesis by simp
qed

subsection \<open>C8: the push and memory-limit flags\<close>

text \<open>
  Claim C8: the argument list contains \<^verbatim>\<open>--push\<close> if and only if push credentials are
  configured, also when dynamic registry credentials are supplied without a static push
  secret. The code does not keep this: with \<^verbatim>\<open>registry_credentials\<close> supplied and
  \<^verbatim>\<open>push_secret\<close> empty, push credentials are configured and the argument list has no
  \<^verbatim>\<open>--push\<close> (the memory-limit flag and its value are there, as claimed).
\<close>

theorem get_cmd_dynamic_credentials:
  "push_credentials_configured dynamic_credentials_executor
   \<and> ''--push'' \<notin> set (get_cmd dynamic_credentials_executor)
   \<and> get_cmd dynamic_credentials_executor =
       [''jupyter-repo2docker'', ''--ref=main'', ''--image=registry/org-repo:main'',
        ''--no-clean'', ''--no-run'', ''--json-logs'', ''--user-name=jovyan'',
        ''--user-id=1000'', ''--build-memory-limit'', ''2147483648'',
        ''https://github.com/org/repo'']"
  by (simp add: dynamic_credentials_executor_def ex_executor_def push_credentials_configured_def
      get_cmd_def get_r2d_cmd_options_def str_int_def str_nat.simps)

subsection \<open>C9: the affinity without active pods\<close>

text \<open>
  Claim C9: with sticky builds enabled and no active image-builder pod, \<^verbatim>\<open>get_affinity\<close>
  returns the pod anti-affinity term. The code does not keep this: the listing with no
  items is a non-empty dict, hence true, the node names are the empty list and taking the
  first ranked node raises \<^verbatim>\<open>IndexError\<close>.
\<close>

theorem get_affinity_sticky_no_pods:
  "sticky_builds sticky_executor
   \<and> list_reply (api sticky_executor) = Inr empty_pod_list
   \<and> active_pods empty_pod_list = 0
   \<and> fst (get_affinity ex_score sticky_executor) = Inl IndexError"
  by (simp add: sticky_executor_def ex_executor_def ex_kube_def empty_pod_list_def
      active_pods_def get_affinity_def list_namespaced_pod_json_def rendezvous_rank_def Let_def)

end
